theory Spec2Isabelle
  imports Complex_Main
begin

unbundle bit_operations_syntax

section \<open>The N3xx peripheral manager: data model\<close>

text \<open>
  The development embeds the control plane of \<^verbatim>\<open>usrp_mpm/periph_manager/n3xx.py\<close>:
  the clock and time source engine (\<^verbatim>\<open>set_sync_source\<close>, \<^verbatim>\<open>set_clock_source\<close>,
  \<^verbatim>\<open>set_time_source\<close>, \<^verbatim>\<open>set_ref_clock_freq\<close>) and the pool of endpoint addresses
  (\<^verbatim>\<open>request_xport\<close>, \<^verbatim>\<open>commit_xport\<close>, \<^verbatim>\<open>deinit\<close>), and the status monitor
  (\<^verbatim>\<open>_monitor_status\<close>, \<^verbatim>\<open>tear_down\<close>).

  A method of the class is a function from the object's state to a result and the state
  it leaves. An exception is the \<open>Inl\<close> of the result; the state returned with it is the
  one the object is left in, since Python undoes nothing when it raises.

  Source names are Python strings and are kept as strings, so that a name outside the
  supported lists is an input of the model as it is of the code. Frequencies are Python
  floats that the code only compares for equality with \<^verbatim>\<open>10e6\<close>, \<^verbatim>\<open>20e6\<close> and
  \<^verbatim>\<open>25e6\<close>; they are reals here, and \<open>None\<close> is Python's \<^verbatim>\<open>None\<close>.
\<close>

text \<open>
  The exceptions. A \<^verbatim>\<open>RuntimeError\<close> carries the fixed part of its message; the source
  formats a frequency or a source name into some of them.
\<close>

datatype error =
    AssertionError
  | RuntimeError string
  | TypeError
  | KeyError
  | ValueError
  | DboardError nat

text \<open>
  The calls on the collaborators (the register block \<^verbatim>\<open>mboard_regs_control\<close>, the port
  expander \<^verbatim>\<open>_gpios\<close>, the White Rabbit core, the daughterboards) are recorded in a log,
  in the order the code makes them, together with the two assignments to the source
  fields. \<^verbatim>\<open>time.sleep(0.100)\<close> is the event \<open>Sleep_ms 100\<close>; every wait is an event
  with its length in milliseconds. The last group is the monitor thread's and
  \<^verbatim>\<open>tear_down\<close>'s: a read of the flag \<^verbatim>\<open>_tear_down\<close> with the value read, the reads and
  writes of a sampling cycle, the wait on the condition, the join of the thread, the error
  line of the log, and the removal of a device tree overlay.
\<close>

datatype event =
    SetClkSafeState nat
  | EnableRefClk bool
  | GpioSet string
  | GpioReset string
  | StoreClockSource string
  | Sleep_ms nat
  | StoreTimeSource string
  | RegsSetTimeSource string "real option"
  | WrGetTimeLockStatus
  | UpdateRefClockFreq nat real string string "string option"
  | ReadTearDown bool
  | GpioGet string
  | LedSet string nat
  | GetRefLockSensor
  | Wait_ms nat
  | Join_ms nat
  | LogError string
  | RmOverlay string

text \<open>
  A daughterboard is known to this module through two calls only. Whether it has the
  optional \<^verbatim>\<open>set_clk_safe_state\<close> is what \<^verbatim>\<open>hasattr\<close> answers; whether a call on it
  raises is the board's business, given here as a flag. \<open>DboardError slot\<close> stands for
  whatever exception the board in that slot raised.
\<close>

record dboard =
  has_set_clk_safe_state :: bool
  set_clk_safe_state_raises :: bool
  update_ref_clock_freq_raises :: bool

record n3xx =
  tear_down_flag :: bool
  clock_source :: "string option"
  time_source :: "string option"
  ext_clock_freq :: "real option"
  available_endpoints :: "int list"
  dboards :: "dboard list"
  fpga_type :: string
  rpc_connection :: "string option"
  device_initialized :: bool
  hw_log :: "event list"

text \<open>
  The argument dictionary of \<^verbatim>\<open>set_sync_source\<close>: \<open>None\<close> is an absent key.
\<close>

record sync_args =
  arg_clock_source :: "string option"
  arg_time_source :: "string option"
  arg_skip_rfic :: "string option"

text \<open>\<^verbatim>\<open>args.get(key, default)\<close> on such a dictionary.\<close>

definition args_get :: "string option \<Rightarrow> string option \<Rightarrow> string option" where
  "args_get v dflt = (case v of Some x \<Rightarrow> Some x | None \<Rightarrow> dflt)"

type_synonym 'a outcome = "(error + 'a) \<times> n3xx"

definition emit :: "event \<Rightarrow> n3xx \<Rightarrow> n3xx" where
  "emit e s = s\<lparr>hw_log := hw_log s @ [e]\<rparr>"

definition emits :: "event list \<Rightarrow> n3xx \<Rightarrow> n3xx" where
  "emits es s = s\<lparr>hw_log := hw_log s @ es\<rparr>"

section \<open>Clock and time sources\<close>

definition valid_sync_sources :: "(string \<times> string) set" where
  "valid_sync_sources =
     {(''internal'', ''internal''),
      (''internal'', ''sfp0''),
      (''external'', ''external''),
      (''external'', ''internal''),
      (''gpsdo'', ''gpsdo'')}"

definition get_clock_sources :: "string list" where
  "get_clock_sources = [''external'', ''internal'', ''gpsdo'']"

definition get_time_sources :: "string list" where
  "get_time_sources = [''internal'', ''external'', ''gpsdo'', ''sfp0'']"

definition get_clock_source :: "n3xx \<Rightarrow> string option" where
  "get_clock_source s = clock_source s"

definition get_time_source :: "n3xx \<Rightarrow> string option" where
  "get_time_source s = time_source s"

text \<open>
  \<^verbatim>\<open>get_ref_clock_freq\<close> indexes a three-entry dictionary with the stored clock source:
  a key outside it raises \<^verbatim>\<open>KeyError\<close>. The external entry is the stored frequency,
  which is \<^verbatim>\<open>None\<close> until the device is initialised.
\<close>

definition get_ref_clock_freq :: "n3xx \<Rightarrow> error + real option" where
  "get_ref_clock_freq s =
     (case clock_source s of
        None \<Rightarrow> Inl KeyError
      | Some cs \<Rightarrow>
          if cs = ''internal'' then Inr (Some 25000000)
          else if cs = ''external'' then Inr (ext_clock_freq s)
          else if cs = ''gpsdo'' then Inr (Some 20000000)
          else Inl KeyError)"

text \<open>
  The first loop of \<^verbatim>\<open>set_sync_source\<close>: every daughterboard that has
  \<^verbatim>\<open>set_clk_safe_state\<close> is called, in slot order; a board that raises ends the loop.
\<close>

fun clk_safe_loop :: "nat \<Rightarrow> dboard list \<Rightarrow> n3xx \<Rightarrow> unit outcome" where
  "clk_safe_loop slot [] s = (Inr (), s)"
| "clk_safe_loop slot (d # ds) s =
     (if has_set_clk_safe_state d then
        (if set_clk_safe_state_raises d
         then (Inl (DboardError slot), emit (SetClkSafeState slot) s)
         else clk_safe_loop (Suc slot) ds (emit (SetClkSafeState slot) s))
      else clk_safe_loop (Suc slot) ds s)"

text \<open>The slots that loop calls, counted from \<open>slot\<close>.\<close>

fun safe_slots :: "nat \<Rightarrow> dboard list \<Rightarrow> nat list" where
  "safe_slots slot [] = []"
| "safe_slots slot (d # ds) =
     (if has_set_clk_safe_state d then slot # safe_slots (Suc slot) ds
      else safe_slots (Suc slot) ds)"

text \<open>The three settings of the CLK-MAINSEL switches.\<close>

definition set_clk_mainsel :: "string \<Rightarrow> event list" where
  "set_clk_mainsel cs =
     (if cs = ''internal'' then
        [GpioSet ''CLK-MAINSEL-EX_B'', GpioSet ''CLK-MAINSEL-25MHz'', GpioReset ''CLK-MAINSEL-GPS'']
      else if cs = ''gpsdo'' then
        [GpioSet ''CLK-MAINSEL-EX_B'', GpioReset ''CLK-MAINSEL-25MHz'', GpioSet ''CLK-MAINSEL-GPS'']
      else
        [GpioReset ''CLK-MAINSEL-EX_B'', GpioReset ''CLK-MAINSEL-GPS'', GpioSet ''CLK-MAINSEL-25MHz''])"

text \<open>
  Modelled from the spec: \<^verbatim>\<open>poll_with_timeout(state_check, timeout_ms, interval_ms)\<close> of
  \<^verbatim>\<open>usrp_mpm.mpmutils\<close> is missing from the source files given. The spec has it poll the
  status until it is locked or a bounded timeout has elapsed, once every interval. The model
  keeps a clock in milliseconds that only the sleep between two polls advances; \<open>check k\<close>
  is what the \<open>k\<close>-th read of the status returns and \<open>read\<close> is the call that reads it.
  The result is the verdict and the calls made: the reads, and after every read that was not
  locked a sleep of the interval. An interval of \<open>0\<close> would never advance this clock, so
  the loop is entered for positive intervals only; the one call in this module passes
  \<open>1000\<close>.
\<close>

function poll_with_timeout ::
  "(nat \<Rightarrow> bool) \<Rightarrow> event \<Rightarrow> nat \<Rightarrow> nat \<Rightarrow> nat \<Rightarrow> nat \<Rightarrow> bool \<times> event list" where
  "poll_with_timeout check read timeout_ms interval_ms now k =
     (if now < timeout_ms \<and> 0 < interval_ms then
        (if check k then (True, [read])
         else
           (case poll_with_timeout check read timeout_ms interval_ms (now + interval_ms) (Suc k) of
              (verdict, calls) \<Rightarrow> (verdict, [read, Sleep_ms interval_ms] @ calls)))
      else (False, []))"
  by pat_completeness auto
termination
  by (relation "measure (\<lambda>(check, read, timeout_ms, interval_ms, now, k). timeout_ms - now)") auto

declare poll_with_timeout.simps [simp del]

definition sfp_time_source_images :: "string list" where
  "sfp_time_source_images = [''WX'']"

text \<open>
  The last loop of \<^verbatim>\<open>set_sync_source\<close>: every daughterboard is given the reference
  frequency and the two source names. The frequency is divided by \<^verbatim>\<open>1e6\<close> for the
  log line before the call, which raises \<^verbatim>\<open>TypeError\<close> on \<^verbatim>\<open>None\<close>.
\<close>

fun update_ref_clock_loop ::
  "nat \<Rightarrow> dboard list \<Rightarrow> real option \<Rightarrow> string \<Rightarrow> string \<Rightarrow> string option \<Rightarrow> n3xx \<Rightarrow> unit outcome" where
  "update_ref_clock_loop slot [] freq ts cs skip s = (Inr (), s)"
| "update_ref_clock_loop slot (d # ds) freq ts cs skip s =
     (case freq of
        None \<Rightarrow> (Inl TypeError, s)
      | Some f \<Rightarrow>
          if update_ref_clock_freq_raises d
          then (Inl (DboardError slot), emit (UpdateRefClockFreq slot f ts cs skip) s)
          else update_ref_clock_loop (Suc slot) ds freq ts cs skip
                 (emit (UpdateRefClockFreq slot f ts cs skip) s))"

text \<open>
  The White Rabbit part of \<^verbatim>\<open>set_sync_source\<close> (source lines 670 to 700), entered when the
  time source is \<^verbatim>\<open>sfp0\<close>. \<open>wr_lock k\<close> is what the \<open>k\<close>-th read of the core's lock status
  returns. The error branch of the poll reads the status once more for its log line.
  \<open>slept_ms\<close> adds up the sleeps of a log.
\<close>

definition sfp0_time_lock :: "(nat \<Rightarrow> bool) \<Rightarrow> string \<Rightarrow> n3xx \<Rightarrow> unit outcome" where
  "sfp0_time_lock wr_lock ts s =
     (if (ts = ''sfp0'' \<or> ts = ''sfp1'') \<and> get_clock_source s \<noteq> Some ''internal'' then
        (Inl (RuntimeError ''Time source requires internal clock source!''), s)
      else if fpga_type s \<notin> set sfp_time_source_images then
        (Inl (RuntimeError ''time source requires FPGA types WX''), s)
      else
        (case poll_with_timeout wr_lock WrGetTimeLockStatus 40000 1000 0 0 of
           (locked, calls) \<Rightarrow>
             if \<not> locked then
               (Inl (RuntimeError ''Failed to lock SFP timebase.''),
                emit WrGetTimeLockStatus (emits calls s))
             else (Inr (), emits calls s)))"

fun slept_ms :: "event list \<Rightarrow> nat" where
  "slept_ms [] = 0"
| "slept_ms (Sleep_ms n # es) = n + slept_ms es"
| "slept_ms (e # es) = slept_ms es"

text \<open>
  The apply sequence of \<^verbatim>\<open>set_sync_source\<close>, for a pair that has passed the checks,
  in two parts. The first (source lines 632 to 665) brings in the new clock source: the
  daughterboards go to their safe state, the reference clock is disabled in the FPGA, the
  switches are thrown, the new name is stored, and after the settling time the reference
  clock is enabled again. The debug line between the store and the sleep divides the
  reference frequency by \<^verbatim>\<open>1e6\<close>, which raises \<^verbatim>\<open>TypeError\<close> on \<^verbatim>\<open>None\<close>.
\<close>

definition switch_clock_source :: "string \<Rightarrow> n3xx \<Rightarrow> unit outcome" where
  "switch_clock_source cs s =
     (case clk_safe_loop 0 (dboards s) s of
        (Inl e, s1) \<Rightarrow> (Inl e, s1)
      | (Inr _, s1) \<Rightarrow>
         (let s2 = emit (EnableRefClk False) s1;
              s3 = emits (set_clk_mainsel cs) s2;
              s4 = emit (StoreClockSource cs) (s3\<lparr>clock_source := Some cs\<rparr>)
          in case get_ref_clock_freq s4 of
               Inl e \<Rightarrow> (Inl e, s4)
             | Inr None \<Rightarrow> (Inl TypeError, s4)
             | Inr (Some _) \<Rightarrow> (Inr (), emit (EnableRefClk True) (emit (Sleep_ms 100) s4))))"

text \<open>
  The second part (source lines 666 to 712) brings in the new time source: the name is
  stored, the register block is told, the White Rabbit core is waited for when the time
  source is \<^verbatim>\<open>sfp0\<close>, and the daughterboards are updated.
\<close>

definition switch_time_source ::
  "(nat \<Rightarrow> bool) \<Rightarrow> string \<Rightarrow> string \<Rightarrow> string option \<Rightarrow> n3xx \<Rightarrow> unit outcome" where
  "switch_time_source wr_lock cs ts skip s =
     (let s1 = emit (StoreTimeSource ts) (s\<lparr>time_source := Some ts\<rparr>)
      in case get_ref_clock_freq s1 of
           Inl e \<Rightarrow> (Inl e, s1)
         | Inr ref_clk_freq \<Rightarrow>
            (let s2 = emit (RegsSetTimeSource ts ref_clk_freq) s1
             in case (if ts = ''sfp0'' then sfp0_time_lock wr_lock ts s2 else (Inr (), s2)) of
                  (Inl e, s3) \<Rightarrow> (Inl e, s3)
                | (Inr _, s3) \<Rightarrow>
                    update_ref_clock_loop 0 (dboards s3) ref_clk_freq ts cs skip s3))"

definition apply_sync_source ::
  "(nat \<Rightarrow> bool) \<Rightarrow> string \<Rightarrow> string \<Rightarrow> string option \<Rightarrow> n3xx \<Rightarrow> unit outcome" where
  "apply_sync_source wr_lock cs ts skip s =
     (case switch_clock_source cs s of
        (Inl e, s1) \<Rightarrow> (Inl e, s1)
      | (Inr _, s1) \<Rightarrow> switch_time_source wr_lock cs ts skip s1)"

text \<open>
  \<^verbatim>\<open>set_sync_source\<close>: the two names default to the stored ones, each must be in its
  list of supported sources, an unchanged pair returns at once, and a changed pair must be
  in \<open>valid_sync_sources\<close> before anything is applied.
\<close>

definition set_sync_source :: "(nat \<Rightarrow> bool) \<Rightarrow> sync_args \<Rightarrow> n3xx \<Rightarrow> unit outcome" where
  "set_sync_source wr_lock args s =
     (case args_get (arg_clock_source args) (clock_source s) of
        None \<Rightarrow> (Inl AssertionError, s)
      | Some cs \<Rightarrow>
          if cs \<notin> set get_clock_sources then (Inl AssertionError, s)
          else
            (case args_get (arg_time_source args) (time_source s) of
               None \<Rightarrow> (Inl AssertionError, s)
             | Some ts \<Rightarrow>
                 if ts \<notin> set get_time_sources then (Inl AssertionError, s)
                 else if Some cs = clock_source s \<and> Some ts = time_source s then (Inr (), s)
                 else if (cs, ts) \<notin> valid_sync_sources then (Inl AssertionError, s)
                 else apply_sync_source wr_lock cs ts (arg_skip_rfic args) s))"

text \<open>
  The order the spec asks of the apply sequence, step by step, written from the spec's words
  and not from the code: \<open>f\<close> is the reference frequency of the new clock source and, for the
  time source \<^verbatim>\<open>sfp0\<close>, \<open>m\<close> is the number of reads of the lock status that were not
  locked before the one that was, each followed by the sleep of the polling interval.
\<close>

definition spec_apply_order ::
  "dboard list \<Rightarrow> string \<Rightarrow> string \<Rightarrow> real \<Rightarrow> nat \<Rightarrow> string option \<Rightarrow> event list" where
  "spec_apply_order boards cs ts f m skip =
     map SetClkSafeState [i \<leftarrow> [0..<length boards]. has_set_clk_safe_state (boards ! i)]
     @ [EnableRefClk False]
     @ (if cs = ''internal'' then
          [GpioSet ''CLK-MAINSEL-EX_B'', GpioSet ''CLK-MAINSEL-25MHz'', GpioReset ''CLK-MAINSEL-GPS'']
        else if cs = ''gpsdo'' then
          [GpioSet ''CLK-MAINSEL-EX_B'', GpioReset ''CLK-MAINSEL-25MHz'', GpioSet ''CLK-MAINSEL-GPS'']
        else
          [GpioReset ''CLK-MAINSEL-EX_B'', GpioReset ''CLK-MAINSEL-GPS'', GpioSet ''CLK-MAINSEL-25MHz''])
     @ [StoreClockSource cs, Sleep_ms 100]
     @ [EnableRefClk True]
     @ [StoreTimeSource ts, RegsSetTimeSource ts (Some f)]
     @ (if ts = ''sfp0''
        then concat (replicate m [WrGetTimeLockStatus, Sleep_ms 1000]) @ [WrGetTimeLockStatus]
        else [])
     @ map (\<lambda>i. UpdateRefClockFreq i f ts cs skip) [0..<length boards]"

text \<open>
  \<^verbatim>\<open>set_clock_source\<close> and \<^verbatim>\<open>set_time_source\<close> build the pair they pass on: the
  requested name with the stored companion, and a matching companion instead when the two
  are not in \<open>valid_sync_sources\<close>.
\<close>

definition set_clock_source_pair :: "string \<Rightarrow> string \<Rightarrow> string \<times> string" where
  "set_clock_source_pair clock_src time_src =
     (if (clock_src, time_src) \<notin> valid_sync_sources then
        (if clock_src = ''internal'' then (clock_src, ''internal'')
         else if clock_src = ''external'' then (clock_src, ''external'')
         else if clock_src = ''gpsdo'' then (clock_src, ''gpsdo'')
         else (clock_src, time_src))
      else (clock_src, time_src))"

definition set_time_source_pair :: "string \<Rightarrow> string \<Rightarrow> string \<times> string" where
  "set_time_source_pair clock_src time_src =
     (if (clock_src, time_src) \<notin> valid_sync_sources then
        (if time_src = ''sfp0'' then (''internal'', time_src)
         else if time_src = ''internal'' then (''internal'', time_src)
         else if time_src = ''external'' then (''external'', time_src)
         else if time_src = ''gpsdo'' then (''gpsdo'', time_src)
         else (clock_src, time_src))
      else (clock_src, time_src))"

definition source_args :: "string \<times> string \<Rightarrow> sync_args" where
  "source_args p =
     \<lparr>arg_clock_source = Some (fst p), arg_time_source = Some (snd p), arg_skip_rfic = None\<rparr>"

definition set_clock_source :: "(nat \<Rightarrow> bool) \<Rightarrow> string \<Rightarrow> n3xx \<Rightarrow> unit outcome" where
  "set_clock_source wr_lock clock_src s =
     (case time_source s of
        None \<Rightarrow> (Inl AssertionError, s)
      | Some time_src \<Rightarrow>
          set_sync_source wr_lock (source_args (set_clock_source_pair clock_src time_src)) s)"

definition set_time_source :: "(nat \<Rightarrow> bool) \<Rightarrow> string \<Rightarrow> n3xx \<Rightarrow> unit outcome" where
  "set_time_source wr_lock time_src s =
     (case clock_source s of
        None \<Rightarrow> (Inl AssertionError, s)
      | Some clock_src \<Rightarrow>
          set_sync_source wr_lock (source_args (set_time_source_pair clock_src time_src)) s)"

text \<open>
  \<^verbatim>\<open>set_ref_clock_freq\<close>, with its checks in the order of the source: the supported
  values, the unchanged value, the 20 MHz rule, then the store and the re-application of
  the time source when the clock source is external.
\<close>

definition set_ref_clock_freq :: "(nat \<Rightarrow> bool) \<Rightarrow> real \<Rightarrow> n3xx \<Rightarrow> unit outcome" where
  "set_ref_clock_freq wr_lock freq s =
     (if freq \<notin> {10000000, 20000000, 25000000} then
        (Inl (RuntimeError ''not a supported external reference clock frequency!''), s)
      else if ext_clock_freq s = Some freq then (Inr (), s)
      else if freq = 20000000 \<and> get_time_source s \<noteq> Some ''external'' then
        (Inl (RuntimeError ''only allowed when using external time_source.''), s)
      else
        (let s1 = s\<lparr>ext_clock_freq := Some freq\<rparr>
         in if get_clock_source s1 = Some ''external'' then
              (case get_time_source s1 of
                 None \<Rightarrow> (Inl AssertionError, s1)
               | Some time_src \<Rightarrow> set_time_source wr_lock time_src s1)
            else (Inr (), s1)))"

text \<open>
  \<^verbatim>\<open>_init_ref_clock_and_time\<close>, the only place outside \<^verbatim>\<open>set_sync_source\<close> that assigns
  the source fields: it stores the external frequency (10 MHz unless given), and either
  stores the default pair (no daughterboard) or applies the requested one, each name
  defaulting to \<^verbatim>\<open>internal\<close>.
\<close>

definition init_ref_clock_and_time ::
  "(nat \<Rightarrow> bool) \<Rightarrow> real option \<Rightarrow> sync_args \<Rightarrow> n3xx \<Rightarrow> unit outcome" where
  "init_ref_clock_and_time wr_lock arg_ext_clock_freq default_args s =
     (let s1 = s\<lparr>ext_clock_freq :=
                  Some (case arg_ext_clock_freq of None \<Rightarrow> 10000000 | Some f \<Rightarrow> f)\<rparr>
      in if length (dboards s1) = 0 then
           (Inr (), s1\<lparr>clock_source := Some ''internal'', time_source := Some ''internal''\<rparr>)
         else
           set_sync_source wr_lock
             \<lparr>arg_clock_source = args_get (arg_clock_source default_args) (Some ''internal''),
              arg_time_source = args_get (arg_time_source default_args) (Some ''internal''),
              arg_skip_rfic = None\<rparr> s1)"

section \<open>Endpoint addresses\<close>

text \<open>
  The pool \<^verbatim>\<open>_available_endpoints\<close> is a Python list, \<^verbatim>\<open>list(range(256))\<close> when the
  object is built and after \<^verbatim>\<open>deinit\<close>. Both transport calls end by handing over to one
  of the two transport managers; what the manager answers is outside this module, so the
  result of a call is the hand-over itself: which manager, and with what.
  \<^verbatim>\<open>SID\<close> (\<^verbatim>\<open>usrp_mpm.mpmtypes\<close>) is missing from the source files given: \<^verbatim>\<open>request_xport\<close>
  passes on the integer it builds the SID from, and the \<^verbatim>\<open>send_sid\<close> of a transport
  is held decoded.
\<close>

datatype xport_mgr = UDP | Liberio

record sid =
  src_addr :: int
  src_ep :: int
  dst_addr :: int
  dst_ep :: int

record xport_info =
  send_sid :: sid

datatype backend_call =
    RequestXport xport_mgr int string
  | CommitXport xport_mgr sid xport_info

definition full_pool :: "int list" where
  "full_pool = [0..255]"

text \<open>The choice of the source address (source lines 494 to 500).\<close>

definition pick_src_address :: "int list \<Rightarrow> int \<Rightarrow> error + int" where
  "pick_src_address pool suggested_src_address =
     (if suggested_src_address \<notin> set pool then
        (case pool of
           [] \<Rightarrow> Inl (RuntimeError ''Depleted pool of SID endpoints for this device!'')
         | a # _ \<Rightarrow> Inr a)
      else Inr suggested_src_address)"

definition request_xport :: "int \<Rightarrow> int \<Rightarrow> string \<Rightarrow> n3xx \<Rightarrow> backend_call outcome" where
  "request_xport dst_address suggested_src_address xport_type s =
     (case pick_src_address (available_endpoints s) suggested_src_address of
        Inl e \<Rightarrow> (Inl e, s)
      | Inr src_address \<Rightarrow>
          if rpc_connection s \<noteq> Some ''remote'' \<and> rpc_connection s \<noteq> Some ''local'' then
            (Inl AssertionError, s)
          else if rpc_connection s = Some ''remote'' then
            (Inr (RequestXport UDP (push_bit 16 src_address OR dst_address) xport_type), s)
          else
            (Inr (RequestXport Liberio (push_bit 16 src_address OR dst_address) xport_type), s))"

text \<open>
  \<^verbatim>\<open>commit_xport\<close>: \<^verbatim>\<open>list.remove\<close> takes out the first occurrence of the address and
  raises \<^verbatim>\<open>ValueError\<close> when there is none.
\<close>

definition commit_xport :: "xport_info \<Rightarrow> n3xx \<Rightarrow> backend_call outcome" where
  "commit_xport info s =
     (if rpc_connection s \<noteq> Some ''remote'' \<and> rpc_connection s \<noteq> Some ''local'' then
        (Inl AssertionError, s)
      else if src_ep (send_sid info) \<notin> set (available_endpoints s) then (Inl ValueError, s)
      else
        (let s1 = s\<lparr>available_endpoints := remove1 (src_ep (send_sid info)) (available_endpoints s)\<rparr>
         in if rpc_connection s = Some ''remote''
            then (Inr (CommitXport UDP (send_sid info) info), s1)
            else (Inr (CommitXport Liberio (send_sid info) info), s1)))"

text \<open>
  \<^verbatim>\<open>deinit\<close> resets the pool. The session teardown of the daughterboards and of the
  transport managers that precedes the reset reads and writes none of the fields kept here.
\<close>

definition deinit :: "n3xx \<Rightarrow> n3xx" where
  "deinit s = (if \<not> device_initialized s then s else s\<lparr>available_endpoints := full_pool\<rparr>)"

text \<open>
  The pools that can arise: the full one, and a pool from which a committed address has
  been removed.
\<close>

inductive reachable_pool :: "int list \<Rightarrow> bool" where
  full: "reachable_pool full_pool"
| committed: "reachable_pool pool \<Longrightarrow> a \<in> set pool \<Longrightarrow> reachable_pool (remove1 a pool)"

section \<open>The status monitor\<close>

text \<open>
  \<^verbatim>\<open>N3XX_MONITOR_THREAD_INTERVAL\<close> is 1.0 second.
\<close>

definition N3XX_MONITOR_THREAD_INTERVAL_ms :: nat where
  "N3XX_MONITOR_THREAD_INTERVAL_ms = 1000"

text \<open>
  One sampling cycle of \<^verbatim>\<open>_monitor_status\<close>: the GPS lock line is read and shown on its
  LED, the reference lock sensor is read and shown on its LED. The two values read are
  inputs of the cycle.
\<close>

definition sampling_cycle :: "bool \<Rightarrow> bool \<Rightarrow> event list" where
  "sampling_cycle gps_locked ref_locked =
     [GpioGet ''GPS-LOCKOK'', LedSet ''LED_GPS'' (if gps_locked then 1 else 0),
      GetRefLockSensor, LedSet ''LED_REF'' (if ref_locked then 1 else 0)]"

text \<open>
  \<^verbatim>\<open>cond.wait_for(lambda: self._tear_down, timeout)\<close> of the standard library, on a
  condition that is local to the thread and that nobody notifies: the predicate is read; if
  it holds the call returns at once; otherwise the thread waits for the whole timeout, reads
  the predicate again and returns what it read. \<open>flag k\<close> is what the \<open>k\<close>-th read of
  \<^verbatim>\<open>_tear_down\<close> by the monitor thread returns. The result is the value returned, the
  calls made, and the number of the next read.
\<close>

definition wait_for :: "(nat \<Rightarrow> bool) \<Rightarrow> nat \<Rightarrow> nat \<Rightarrow> bool \<times> event list \<times> nat" where
  "wait_for flag k timeout_ms =
     (if flag k then (True, [ReadTearDown True], Suc k)
      else (flag (Suc k),
            [ReadTearDown False, Wait_ms timeout_ms, ReadTearDown (flag (Suc k))],
            Suc (Suc k)))"

text \<open>
  The loop of \<^verbatim>\<open>_monitor_status\<close>. It runs for as long as the flag is not set, so it
  is given fuel, one unit for every turn of the loop: \<open>None\<close> is a loop that has not ended
  when the fuel has. \<open>gps c\<close> and \<open>ref c\<close> are the two values the \<open>c\<close>-th cycle reads.
  The result is the log of the thread.
\<close>

fun monitor_status ::
  "nat \<Rightarrow> (nat \<Rightarrow> bool) \<Rightarrow> (nat \<Rightarrow> bool) \<Rightarrow> (nat \<Rightarrow> bool) \<Rightarrow> nat \<Rightarrow> nat \<Rightarrow> event list option" where
  "monitor_status 0 flag gps ref k c = None"
| "monitor_status (Suc fuel) flag gps ref k c =
     (if flag k then Some [ReadTearDown True]
      else
        (case wait_for flag (Suc k) N3XX_MONITOR_THREAD_INTERVAL_ms of
           (stop, calls, k') \<Rightarrow>
             if stop then Some (ReadTearDown False # sampling_cycle (gps c) (ref c) @ calls)
             else
               (case monitor_status fuel flag gps ref k' (Suc c) of
                  None \<Rightarrow> None
                | Some rest \<Rightarrow>
                    Some (ReadTearDown False # sampling_cycle (gps c) (ref c) @ calls @ rest))))"

text \<open>What a log holds: the sampling cycles begun, and the time waited on the condition.\<close>

definition sampling_cycles :: "event list \<Rightarrow> nat" where
  "sampling_cycles es = length [e \<leftarrow> es. e = GpioGet ''GPS-LOCKOK'']"

fun waited_ms :: "event list \<Rightarrow> nat" where
  "waited_ms [] = 0"
| "waited_ms (Wait_ms n # es) = n + waited_ms es"
| "waited_ms (e # es) = waited_ms es"

text \<open>
  \<^verbatim>\<open>tear_down\<close>: the flag is set; on an initialised device the monitor thread is joined
  with a timeout of three intervals, and a thread that is still alive then is reported in
  the log; the active device tree overlays are removed in every case. Whether the thread is
  alive after the join, and the list of active overlays, are inputs.
\<close>

definition tear_down :: "bool \<Rightarrow> string list \<Rightarrow> n3xx \<Rightarrow> unit outcome" where
  "tear_down is_alive active_overlays s =
     (let s1 = s\<lparr>tear_down_flag := True\<rparr>;
          s2 = (if device_initialized s1 then
                  (let s3 = emit (Join_ms (3 * N3XX_MONITOR_THREAD_INTERVAL_ms)) s1
                   in if is_alive then
                        emit (LogError ''Could not terminate monitor thread! This could result in resource leaks.'') s3
                      else s3)
                else s1)
      in (Inr (), emits (map RmOverlay active_overlays) s2))"

section \<open>The engine after initialisation\<close>

text \<open>
  The calls a client can make on the fields of this development, and the state each
  leaves, whether it returns or raises. \<^verbatim>\<open>init\<close> reaches the source fields through
  \<^verbatim>\<open>set_sync_source\<close> alone, with the same defaults, and is that call here.
\<close>

datatype operation =
    SetSyncSource sync_args
  | SetClockSource string
  | SetTimeSource string
  | SetRefClockFreq real
  | RequestXportOp int int string
  | CommitXportOp xport_info
  | Deinit

fun run :: "(nat \<Rightarrow> bool) \<Rightarrow> operation \<Rightarrow> n3xx \<Rightarrow> n3xx" where
  "run wr_lock (SetSyncSource args) s = snd (set_sync_source wr_lock args s)"
| "run wr_lock (SetClockSource c) s = snd (set_clock_source wr_lock c s)"
| "run wr_lock (SetTimeSource t) s = snd (set_time_source wr_lock t s)"
| "run wr_lock (SetRefClockFreq f) s = snd (set_ref_clock_freq wr_lock f s)"
| "run wr_lock (RequestXportOp d a x) s = snd (request_xport d a x s)"
| "run wr_lock (CommitXportOp info) s = snd (commit_xport info s)"
| "run wr_lock Deinit s = deinit s"

text \<open>
  The states of an initialised device: \<^verbatim>\<open>_init_ref_clock_and_time\<close> has run on an object
  whose source fields were still unset, and any number of calls have followed, each with
  its own readings of the White Rabbit lock status.
\<close>

inductive initialised :: "n3xx \<Rightarrow> bool" where
  boot: "clock_source s = None \<Longrightarrow> time_source s = None \<Longrightarrow>
         initialised (snd (init_ref_clock_and_time wr_lock f default_args s))"
| call: "initialised s \<Longrightarrow> initialised (run wr_lock operation s)"

definition sync_pair_valid :: "n3xx \<Rightarrow> bool" where
  "sync_pair_valid s =
     (case (clock_source s, time_source s) of
        (Some cs, Some ts) \<Rightarrow> (cs, ts) \<in> valid_sync_sources
      | _ \<Rightarrow> True)"

text \<open>A state to run the calls on: internal sources, two daughterboards, the full pool.\<close>

definition magnesium :: dboard where
  "magnesium = \<lparr>has_set_clk_safe_state = True, set_clk_safe_state_raises = False,
                update_ref_clock_freq_raises = False\<rparr>"

definition plain_board :: dboard where
  "plain_board = \<lparr>has_set_clk_safe_state = False, set_clk_safe_state_raises = False,
                  update_ref_clock_freq_raises = False\<rparr>"

definition bench :: n3xx where
  "bench = \<lparr>tear_down_flag = False,
            clock_source = Some ''internal'', time_source = Some ''internal'',
            ext_clock_freq = Some 10000000, available_endpoints = full_pool,
            dboards = [plain_board, magnesium], fpga_type = ''WX'',
            rpc_connection = Some ''remote'', device_initialized = True, hw_log = []\<rparr>"

definition ext_args :: sync_args where
  "ext_args = \<lparr>arg_clock_source = Some ''external'', arg_time_source = Some ''external'',
               arg_skip_rfic = None\<rparr>"

definition bad_args :: sync_args where
  "bad_args = \<lparr>arg_clock_source = Some ''external'', arg_time_source = Some ''sfp0'',
               arg_skip_rfic = None\<rparr>"

definition no_args :: sync_args where
  "no_args = \<lparr>arg_clock_source = None, arg_time_source = None, arg_skip_rfic = None\<rparr>"

text \<open>Readings of the lock status, and further states, to run the calls on.\<close>

definition never_locked :: "nat \<Rightarrow> bool" where
  "never_locked k = False"

definition locks_at_third :: "nat \<Rightarrow> bool" where
  "locks_at_third k = (2 \<le> k)"

definition sfp0_args :: sync_args where
  "sfp0_args = \<lparr>arg_clock_source = None, arg_time_source = Some ''sfp0'', arg_skip_rfic = None\<rparr>"

definition endpoint_5 :: xport_info where
  "endpoint_5 = \<lparr>send_sid = \<lparr>src_addr = 0, src_ep = 5, dst_addr = 0, dst_ep = 16\<rparr>\<rparr>"

definition ext_bench :: n3xx where
  "ext_bench = bench\<lparr>clock_source := Some ''external'', time_source := Some ''external''\<rparr>"

definition bench_20MHz :: n3xx where
  "bench_20MHz = bench\<lparr>ext_clock_freq := Some 20000000\<rparr>"

definition set_at_fifth_read :: "nat \<Rightarrow> bool" where
  "set_at_fifth_read k = (4 \<le> k)"

definition always :: "nat \<Rightarrow> bool" where
  "always k = True"

definition faulty_board :: dboard where
  "faulty_board = \<lparr>has_set_clk_safe_state = True, set_clk_safe_state_raises = False,
                   update_ref_clock_freq_raises = True\<rparr>"

text \<open>
  The object as the constructor leaves it, and after its initialisation, with no arguments,
  on a daughterboard that raises when it is given the reference frequency.
\<close>

definition fresh :: n3xx where
  "fresh = bench\<lparr>clock_source := None, time_source := None, ext_clock_freq := None\<rparr>"

definition faulty_booted :: n3xx where
  "faulty_booted =
     snd (init_ref_clock_and_time never_locked None no_args (fresh\<lparr>dboards := [faulty_board]\<rparr>))"

lemmas bench_defs =
  bench_def magnesium_def plain_board_def ext_args_def bad_args_def no_args_def args_get_def
  get_clock_sources_def get_time_sources_def valid_sync_sources_def

lemmas sync_defs =
  set_sync_source_def apply_sync_source_def switch_clock_source_def switch_time_source_def
  get_ref_clock_freq_def set_clk_mainsel_def emit_def emits_def

section \<open>Rejected and unchanged pairs\<close>

lemma emit_is_emits: "emit e s = emits [e] s"
  by (simp add: emit_def emits_def)

lemma emits_emits: "emits es (emits fs s) = emits (fs @ es) s"
  by (simp add: emits_def)

lemma emits_Nil: "emits [] s = s"
  by (simp add: emits_def)

text \<open>
  C1. A pair of supported names that is not in \<open>valid_sync_sources\<close>, and is not the
  stored pair, is refused with the assertion error, and the object is left as it was: the
  log has no new entry (no GPIO line set or reset, no register written, no daughterboard
  called) and the two source fields are unchanged.
\<close>

theorem set_sync_source_rejects_invalid_pair:
  assumes "args_get (arg_clock_source args) (clock_source s) = Some cs"
    and "args_get (arg_time_source args) (time_source s) = Some ts"
    and "cs \<in> set get_clock_sources" and "ts \<in> set get_time_sources"
    and "(cs, ts) \<notin> valid_sync_sources"
    and "\<not> (clock_source s = Some cs \<and> time_source s = Some ts)"
  shows "fst (set_sync_source wr_lock args s) = Inl AssertionError \<and>
         snd (set_sync_source wr_lock args s) = s \<and>
         hw_log (snd (set_sync_source wr_lock args s)) = hw_log s \<and>
         clock_source (snd (set_sync_source wr_lock args s)) = clock_source s \<and>
         time_source (snd (set_sync_source wr_lock args s)) = time_source s"
  using assms by (auto simp: set_sync_source_def)

theorem set_sync_source_rejects_invalid_pair_witness:
  "''external'' \<in> set get_clock_sources \<and> ''sfp0'' \<in> set get_time_sources \<and>
   (''external'', ''sfp0'') \<notin> valid_sync_sources \<and>
   set_sync_source (\<lambda>k. True) bad_args bench = (Inl AssertionError, bench)"
proof -
  have a: "args_get (arg_clock_source bad_args) (clock_source bench) = Some ''external''"
    and b: "args_get (arg_time_source bad_args) (time_source bench) = Some ''sfp0''"
    and c: "''external'' \<in> set get_clock_sources" and d: "''sfp0'' \<in> set get_time_sources"
    and e: "(''external'', ''sfp0'') \<notin> valid_sync_sources"
    and f: "\<not> (clock_source bench = Some ''external'' \<and> time_source bench = Some ''sfp0'')"
    by (simp_all add: bench_defs)
  from set_sync_source_rejects_invalid_pair [OF a b c d e f, of "\<lambda>k. True"] c d e
  show ?thesis by (simp add: prod_eq_iff)
qed

text \<open>
  C6. A call whose pair, after the defaults, is the stored pair leaves the object as it was,
  log included: no register or GPIO write and no daughterboard call. It returns normally
  when the stored names are supported ones, as they are once a pair has been applied. On an
  object whose fields are still unset, the assertions on the names come first and raise,
  again with nothing written.
\<close>

theorem set_sync_source_same_pair_noop:
  assumes "args_get (arg_clock_source args) (clock_source s) = clock_source s"
    and "args_get (arg_time_source args) (time_source s) = time_source s"
  shows "snd (set_sync_source wr_lock args s) = s \<and>
         hw_log (snd (set_sync_source wr_lock args s)) = hw_log s \<and>
         (\<forall>cs ts. clock_source s = Some cs \<and> time_source s = Some ts \<and>
                  cs \<in> set get_clock_sources \<and> ts \<in> set get_time_sources \<longrightarrow>
                  fst (set_sync_source wr_lock args s) = Inr ()) \<and>
         (clock_source s = None \<or> time_source s = None \<longrightarrow>
                  fst (set_sync_source wr_lock args s) = Inl AssertionError)"
  using assms by (auto simp: set_sync_source_def split: option.splits)

theorem set_sync_source_same_pair_noop_witness:
  "set_sync_source (\<lambda>k. True) no_args bench = (Inr (), bench) \<and>
   set_sync_source (\<lambda>k. True)
     \<lparr>arg_clock_source = Some ''internal'', arg_time_source = None, arg_skip_rfic = None\<rparr> bench
     = (Inr (), bench)"
proof -
  have a: "args_get (arg_clock_source no_args) (clock_source bench) = clock_source bench"
    and b: "args_get (arg_time_source no_args) (time_source bench) = time_source bench"
    and c: "args_get (arg_clock_source
              \<lparr>arg_clock_source = Some ''internal'', arg_time_source = None, arg_skip_rfic = None\<rparr>)
              (clock_source bench) = clock_source bench"
    and d: "args_get (arg_time_source
              \<lparr>arg_clock_source = Some ''internal'', arg_time_source = None, arg_skip_rfic = None\<rparr>)
              (time_source bench) = time_source bench"
    and e: "clock_source bench = Some ''internal'' \<and> time_source bench = Some ''internal'' \<and>
            ''internal'' \<in> set get_clock_sources \<and> ''internal'' \<in> set get_time_sources"
    by (simp_all add: bench_defs)
  from set_sync_source_same_pair_noop [OF a b, of "\<lambda>k. True"]
       set_sync_source_same_pair_noop [OF c d, of "\<lambda>k. True"] e
  show ?thesis by (simp add: prod_eq_iff)
qed

section \<open>The external reference frequency\<close>

text \<open>
  With the external clock source stored and the stored pair in \<open>valid_sync_sources\<close>,
  \<^verbatim>\<open>set_ref_clock_freq\<close> adds nothing to the log: the pair that \<^verbatim>\<open>set_time_source\<close>
  passes on is the stored pair, which \<^verbatim>\<open>set_sync_source\<close> takes for unchanged.
\<close>

lemma set_ref_clock_freq_log:
  assumes "clock_source s = Some ''external''" and "time_source s = Some ts"
    and "(''external'', ts) \<in> valid_sync_sources"
  shows "hw_log (snd (set_ref_clock_freq wr_lock freq s)) = hw_log s"
  using assms
  by (auto simp: set_ref_clock_freq_def get_clock_source_def get_time_source_def Let_def
        set_time_source_def set_time_source_pair_def source_args_def set_sync_source_def
        args_get_def get_clock_sources_def get_time_sources_def valid_sync_sources_def)

text \<open>
  C3. The claim is that a call of \<^verbatim>\<open>set_ref_clock_freq\<close> that changes the stored frequency
  while the clock source is external reaches every daughterboard with
  \<^verbatim>\<open>update_ref_clock_freq\<close>. On the code it does not: with the pair external/external,
  10 MHz stored and two daughterboards, the call with 25 MHz returns, stores 25 MHz, and
  leaves the log as it was, so no daughterboard has been called.
\<close>

theorem set_ref_clock_freq_external_no_update:
  "clock_source ext_bench = Some ''external'' \<and>
   ext_clock_freq ext_bench = Some 10000000 \<and>
   length (dboards ext_bench) = 2 \<and>
   fst (set_ref_clock_freq never_locked 25000000 ext_bench) = Inr () \<and>
   ext_clock_freq (snd (set_ref_clock_freq never_locked 25000000 ext_bench)) = Some 25000000 \<and>
   hw_log (snd (set_ref_clock_freq never_locked 25000000 ext_bench)) = hw_log ext_bench"
  by (simp add: set_ref_clock_freq_def ext_bench_def get_clock_source_def get_time_source_def
        set_time_source_def set_time_source_pair_def source_args_def set_sync_source_def bench_defs)

text \<open>
  C5, as stated, fails: with 20 MHz already stored and the internal time source, the call
  with 20 MHz returns normally and changes nothing, since the test for an unchanged
  frequency comes before the 20 MHz rule.
\<close>

theorem set_ref_clock_freq_20MHz_counterexample:
  "time_source bench_20MHz \<noteq> Some ''external'' \<and>
   set_ref_clock_freq never_locked 20000000 bench_20MHz = (Inr (), bench_20MHz)"
  by (simp add: set_ref_clock_freq_def bench_20MHz_def bench_defs)

text \<open>
  C5, amended. A frequency outside 10, 20 and 25 MHz is refused. 20 MHz is refused when the
  time source is not external, unless 20 MHz is the stored frequency already. A frequency
  equal to the stored one changes nothing, log included, and returns normally when it is a
  supported one. Every refusal leaves the object as it was.
\<close>

theorem set_ref_clock_freq_checks:
  "(freq \<notin> {10000000, 20000000, 25000000} \<longrightarrow>
      (\<exists>msg. fst (set_ref_clock_freq wr_lock freq s) = Inl (RuntimeError msg)) \<and>
      snd (set_ref_clock_freq wr_lock freq s) = s) \<and>
   (freq = 20000000 \<and> time_source s \<noteq> Some ''external'' \<and> ext_clock_freq s \<noteq> Some 20000000 \<longrightarrow>
      (\<exists>msg. fst (set_ref_clock_freq wr_lock freq s) = Inl (RuntimeError msg)) \<and>
      snd (set_ref_clock_freq wr_lock freq s) = s) \<and>
   (ext_clock_freq s = Some freq \<longrightarrow> snd (set_ref_clock_freq wr_lock freq s) = s) \<and>
   (ext_clock_freq s = Some freq \<and> freq \<in> {10000000, 20000000, 25000000} \<longrightarrow>
      fst (set_ref_clock_freq wr_lock freq s) = Inr ())"
  by (simp add: set_ref_clock_freq_def get_time_source_def)

theorem set_ref_clock_freq_checks_witness:
  "set_ref_clock_freq never_locked 30000000 bench
     = (Inl (RuntimeError ''not a supported external reference clock frequency!''), bench) \<and>
   set_ref_clock_freq never_locked 20000000 bench
     = (Inl (RuntimeError ''only allowed when using external time_source.''), bench) \<and>
   set_ref_clock_freq never_locked 10000000 bench = (Inr (), bench)"
  using set_ref_clock_freq_checks [of 30000000 never_locked bench]
        set_ref_clock_freq_checks [of 20000000 never_locked bench]
        set_ref_clock_freq_checks [of 10000000 never_locked bench]
  by (simp add: set_ref_clock_freq_def bench_defs get_time_source_def)

section \<open>The pool of endpoint addresses\<close>

text \<open>
  Every pool that arises is the full pool with some addresses removed, so it is sorted and
  has no address twice: its first element is its least.
\<close>

lemma reachable_pool_sorted:
  "reachable_pool pool \<Longrightarrow> sorted pool \<and> distinct pool \<and> set pool \<subseteq> {0..255}"
proof (induction rule: reachable_pool.induct)
  case full
  show ?case by (simp add: full_pool_def)
next
  case (committed pool a)
  then show ?case
    using set_remove1_subset [of a pool] by (auto simp: sorted_remove1)
qed

lemma sorted_hd_Min: "sorted (a # pool) \<Longrightarrow> Min (set (a # pool)) = a"
  by (auto intro: Min_eqI)

lemma bench_pool_facts:
  "available_endpoints bench = full_pool" "rpc_connection bench = Some ''remote''"
  "src_ep (send_sid endpoint_5) = 5" "5 \<in> set full_pool" "set full_pool = {0..255}"
  "length full_pool = 256" "reachable_pool (remove1 5 full_pool)"
  "0 \<in> set (remove1 5 full_pool)" "5 \<notin> set (remove1 5 full_pool)"
proof -
  show in5: "5 \<in> set full_pool" by (simp add: full_pool_def)
  show "reachable_pool (remove1 5 full_pool)"
    by (rule reachable_pool.committed [OF reachable_pool.full in5])
qed (simp_all add: bench_def endpoint_5_def full_pool_def)

lemma bench_committed:
  "snd (commit_xport endpoint_5 bench) = bench\<lparr>available_endpoints := remove1 5 full_pool\<rparr>"
  by (simp add: commit_xport_def bench_pool_facts)

text \<open>
  C7. On a claimed device (the connection is remote or local) with any pool that can
  arise, \<^verbatim>\<open>request_xport\<close> chooses the suggested source address if it is free; otherwise,
  if the pool is not empty, the lowest free address; and with an empty pool it raises the
  runtime error of the depleted pool. The chosen address goes, shifted by 16 bits and
  joined with the destination address, to the transport manager of the connection. The
  call never changes the object, the pool included.
\<close>

theorem request_xport_picks:
  assumes reach: "reachable_pool (available_endpoints s)"
    and claimed: "rpc_connection s = Some ''remote'' \<or> rpc_connection s = Some ''local''"
  shows "snd (request_xport dst_address suggested xport_type s) = s \<and>
     (suggested \<in> set (available_endpoints s) \<longrightarrow>
        pick_src_address (available_endpoints s) suggested = Inr suggested \<and>
        fst (request_xport dst_address suggested xport_type s) =
          Inr (RequestXport (if rpc_connection s = Some ''remote'' then UDP else Liberio)
                 (push_bit 16 suggested OR dst_address) xport_type)) \<and>
     (suggested \<notin> set (available_endpoints s) \<and> available_endpoints s \<noteq> [] \<longrightarrow>
        pick_src_address (available_endpoints s) suggested = Inr (Min (set (available_endpoints s))) \<and>
        fst (request_xport dst_address suggested xport_type s) =
          Inr (RequestXport (if rpc_connection s = Some ''remote'' then UDP else Liberio)
                 (push_bit 16 (Min (set (available_endpoints s))) OR dst_address) xport_type)) \<and>
     (available_endpoints s = [] \<longrightarrow>
        fst (request_xport dst_address suggested xport_type s) =
          Inl (RuntimeError ''Depleted pool of SID endpoints for this device!''))"
proof -
  have sorted: "sorted (available_endpoints s)"
    using reachable_pool_sorted [OF reach] by simp
  have hd: "Min (set (available_endpoints s)) = a" if "available_endpoints s = a # rest" for a rest
    using sorted sorted_hd_Min [of a rest] that by simp
  show ?thesis
    using claimed hd
    by (cases "available_endpoints s")
       (auto simp: request_xport_def pick_src_address_def split: sum.splits)
qed

theorem request_xport_picks_witness:
  "fst (request_xport 16 5 ''CTRL'' bench) = Inr (RequestXport UDP 327696 ''CTRL'') \<and>
   snd (request_xport 16 5 ''CTRL'' bench) = bench \<and>
   Min (set (available_endpoints (snd (commit_xport endpoint_5 bench)))) = 0 \<and>
   fst (request_xport 16 5 ''CTRL'' (snd (commit_xport endpoint_5 bench)))
     = Inr (RequestXport UDP 16 ''CTRL'')"
proof -
  let ?s = "bench\<lparr>available_endpoints := remove1 5 full_pool\<rparr>"
  have r1: "reachable_pool (available_endpoints bench)"
    by (simp add: bench_pool_facts reachable_pool.full)
  have r2: "reachable_pool (available_endpoints ?s)"
    by (simp add: bench_pool_facts)
  have c1: "rpc_connection bench = Some ''remote'' \<or> rpc_connection bench = Some ''local''"
    and c2: "rpc_connection ?s = Some ''remote'' \<or> rpc_connection ?s = Some ''local''"
    by (simp_all add: bench_pool_facts)
  have min: "Min (set (remove1 5 full_pool)) = 0"
  proof (rule Min_eqI)
    show "0 \<in> set (remove1 5 full_pool)" by (rule bench_pool_facts)
    show "0 \<le> y" if "y \<in> set (remove1 5 full_pool)" for y
      using notin_set_remove1 [of y full_pool 5] that by (auto simp: bench_pool_facts)
  qed simp
  have ne: "remove1 5 full_pool \<noteq> []"
    using bench_pool_facts(8) by (cases "remove1 5 full_pool") simp_all
  have w1: "fst (request_xport 16 5 ''CTRL'' bench) = Inr (RequestXport UDP 327696 ''CTRL'')"
    "snd (request_xport 16 5 ''CTRL'' bench) = bench"
    using request_xport_picks [OF r1 c1, of 16 5 "''CTRL''"]
    by (simp_all add: bench_pool_facts)
  have w2: "fst (request_xport 16 5 ''CTRL'' ?s) = Inr (RequestXport UDP 16 ''CTRL'')"
    using request_xport_picks [OF r2 c2, of 16 5 "''CTRL''"] ne
    by (simp add: bench_pool_facts min)
  show ?thesis
    by (simp add: w1 w2 bench_committed min)
qed

text \<open>
  C8. On a claimed device with any pool that can arise, \<^verbatim>\<open>commit_xport\<close> takes the source
  endpoint of the transport out of the pool and nothing else: the pool afterwards is the
  pool before without that address, in the same order, one shorter. If the address is not
  in the pool (a second commit), the call fails with \<^verbatim>\<open>ValueError\<close> and the object is as
  it was.
\<close>

theorem commit_xport_removes:
  assumes reach: "reachable_pool (available_endpoints s)"
    and claimed: "rpc_connection s = Some ''remote'' \<or> rpc_connection s = Some ''local''"
  shows "(src_ep (send_sid info) \<in> set (available_endpoints s) \<longrightarrow>
        fst (commit_xport info s) =
          Inr (CommitXport (if rpc_connection s = Some ''remote'' then UDP else Liberio)
                 (send_sid info) info) \<and>
        snd (commit_xport info s) =
          s\<lparr>available_endpoints := [a \<leftarrow> available_endpoints s. a \<noteq> src_ep (send_sid info)]\<rparr> \<and>
        set (available_endpoints (snd (commit_xport info s))) =
          set (available_endpoints s) - {src_ep (send_sid info)} \<and>
        Suc (length (available_endpoints (snd (commit_xport info s)))) =
          length (available_endpoints s)) \<and>
     (src_ep (send_sid info) \<notin> set (available_endpoints s) \<longrightarrow>
        commit_xport info s = (Inl ValueError, s))"
proof -
  have distinct: "distinct (available_endpoints s)"
    using reachable_pool_sorted [OF reach] by simp
  have rm: "[a \<leftarrow> available_endpoints s. a \<noteq> x] = remove1 x (available_endpoints s)" for x
    using distinct by (simp add: distinct_remove1_removeAll removeAll_filter_not_eq) metis
  have set_rm: "set (remove1 x (available_endpoints s)) = set (available_endpoints s) - {x}" for x
    using distinct by (rule set_remove1_eq)
  have len: "Suc (length (remove1 x (available_endpoints s))) = length (available_endpoints s)"
    if "x \<in> set (available_endpoints s)" for x
    using that length_pos_if_in_set [OF that] by (simp add: length_remove1)
  show ?thesis
    using claimed by (auto simp: commit_xport_def Let_def rm set_rm len)
qed

theorem commit_xport_removes_witness:
  "fst (commit_xport endpoint_5 bench) = Inr (CommitXport UDP (send_sid endpoint_5) endpoint_5) \<and>
   set (available_endpoints (snd (commit_xport endpoint_5 bench))) = {0..255} - {5} \<and>
   length (available_endpoints (snd (commit_xport endpoint_5 bench))) = 255 \<and>
   commit_xport endpoint_5 (snd (commit_xport endpoint_5 bench))
     = (Inl ValueError, snd (commit_xport endpoint_5 bench))"
proof -
  let ?s = "bench\<lparr>available_endpoints := remove1 5 full_pool\<rparr>"
  have r1: "reachable_pool (available_endpoints bench)"
    by (simp add: bench_pool_facts reachable_pool.full)
  have r2: "reachable_pool (available_endpoints ?s)"
    by (simp add: bench_pool_facts)
  have c1: "rpc_connection bench = Some ''remote'' \<or> rpc_connection bench = Some ''local''"
    and c2: "rpc_connection ?s = Some ''remote'' \<or> rpc_connection ?s = Some ''local''"
    by (simp_all add: bench_pool_facts)
  have mem: "src_ep (send_sid endpoint_5) \<in> set (available_endpoints bench)"
    by (simp add: bench_pool_facts)
  note removed = commit_xport_removes [OF r1 c1, of endpoint_5, THEN conjunct1, THEN mp, OF mem]
  have w1: "fst (commit_xport endpoint_5 bench) = Inr (CommitXport UDP (send_sid endpoint_5) endpoint_5)"
    "set (available_endpoints (snd (commit_xport endpoint_5 bench))) = {0..255} - {5}"
    "Suc (length (available_endpoints (snd (commit_xport endpoint_5 bench)))) = 256"
    using removed [THEN conjunct1] removed [THEN conjunct2, THEN conjunct2, THEN conjunct1]
      removed [THEN conjunct2, THEN conjunct2, THEN conjunct2]
    by (simp_all add: bench_pool_facts)
  have w2: "commit_xport endpoint_5 ?s = (Inl ValueError, ?s)"
    using commit_xport_removes [OF r2 c2, of endpoint_5]
    by (simp add: bench_pool_facts)
  from w1(3) have len: "length (available_endpoints (snd (commit_xport endpoint_5 bench))) = 255"
    by simp
  show ?thesis
    using w1(1,2) len w2 by (simp add: bench_committed)
qed

section \<open>The apply sequence\<close>

text \<open>
  The calls of a run are followed through the two parts of the apply sequence: first the
  runs in which no collaborator raises, then the poll of the lock status, then the runs that
  a collaborator ends early.
\<close>

lemma safe_slots_filter:
  "safe_slots k ds = [i \<leftarrow> [k..<k + length ds]. has_set_clk_safe_state (ds ! (i - k))]"
proof (induction ds arbitrary: k)
  case Nil
  then show ?case by simp
next
  case (Cons d ds)
  have shift: "[i \<leftarrow> [Suc k..<Suc k + length ds]. has_set_clk_safe_state ((d # ds) ! (i - k))]
      = [i \<leftarrow> [Suc k..<Suc k + length ds]. has_set_clk_safe_state (ds ! (i - Suc k))]"
  proof (rule filter_cong [OF refl])
    fix i assume "i \<in> set [Suc k..<Suc k + length ds]"
    then have "i - k = Suc (i - Suc k)" by auto
    then show "has_set_clk_safe_state ((d # ds) ! (i - k))
      = has_set_clk_safe_state (ds ! (i - Suc k))" by simp
  qed
  have "[k..<k + length (d # ds)] = k # [Suc k..<Suc k + length ds]"
    by (subst upt_rec) simp
  then show ?case using Cons.IH [of "Suc k"] shift by simp
qed

lemma get_ref_clock_freq_log:
  "get_ref_clock_freq (s\<lparr>hw_log := l\<rparr>) = get_ref_clock_freq s"
  "get_ref_clock_freq (s\<lparr>time_source := t\<rparr>) = get_ref_clock_freq s"
  "get_ref_clock_freq (s\<lparr>hw_log := l, clock_source := c\<rparr>) = get_ref_clock_freq (s\<lparr>clock_source := c\<rparr>)"
  by (simp_all add: get_ref_clock_freq_def split: option.splits)

lemma get_ref_clock_freq_Some:
  "get_ref_clock_freq (s\<lparr>clock_source := Some cs\<rparr>) = Inr (Some f) \<longleftrightarrow>
   cs = ''internal'' \<and> f = 25000000 \<or> cs = ''gpsdo'' \<and> f = 20000000 \<or>
   cs = ''external'' \<and> ext_clock_freq s = Some f"
  by (auto simp: get_ref_clock_freq_def split: if_splits)

subsection \<open>Runs in which nothing raises\<close>

lemma clk_safe_loop_ok:
  "\<forall>d\<in>set ds. has_set_clk_safe_state d \<longrightarrow> \<not> set_clk_safe_state_raises d \<Longrightarrow>
   clk_safe_loop k ds s = (Inr (), emits (map SetClkSafeState (safe_slots k ds)) s)"
  by (induction ds arbitrary: k s) (simp_all add: emits_Nil emit_is_emits emits_emits)

lemma update_ref_clock_loop_ok:
  "\<forall>d\<in>set ds. \<not> update_ref_clock_freq_raises d \<Longrightarrow>
   update_ref_clock_loop k ds (Some f) ts cs skip s =
     (Inr (), emits (map (\<lambda>i. UpdateRefClockFreq i f ts cs skip) [k..<k + length ds]) s)"
proof (induction ds arbitrary: k s)
  case Nil
  then show ?case by (simp add: emits_Nil)
next
  case (Cons d ds)
  have upt: "[k..<k + length (d # ds)] = k # [Suc k..<Suc k + length ds]"
    by (subst upt_rec) simp
  show ?case unfolding upt using Cons.prems
    by (simp add: Cons.IH emit_is_emits emits_emits)
qed

lemma switch_clock_source_ok:
  assumes safe: "\<forall>d\<in>set (dboards s). has_set_clk_safe_state d \<longrightarrow> \<not> set_clk_safe_state_raises d"
    and f: "get_ref_clock_freq (s\<lparr>clock_source := Some cs\<rparr>) = Inr (Some f)"
  shows "switch_clock_source cs s =
     (Inr (), s\<lparr>clock_source := Some cs,
                hw_log := hw_log s @ map SetClkSafeState (safe_slots 0 (dboards s))
                  @ [EnableRefClk False] @ set_clk_mainsel cs
                  @ [StoreClockSource cs, Sleep_ms 100, EnableRefClk True]\<rparr>)"
  using f
  by (simp add: switch_clock_source_def clk_safe_loop_ok [OF safe] emit_def emits_def
        get_ref_clock_freq_log)

subsection \<open>The poll\<close>

lemma poll_with_timeout_locked:
  "0 < interval_ms \<Longrightarrow> now + m * interval_ms < timeout_ms \<Longrightarrow>
   (\<forall>j<m. \<not> check (k + j)) \<Longrightarrow> check (k + m) \<Longrightarrow>
   poll_with_timeout check read timeout_ms interval_ms now k =
     (True, concat (replicate m [read, Sleep_ms interval_ms]) @ [read])"
proof (induction m arbitrary: now k)
  case 0
  then show ?case by (simp add: poll_with_timeout.simps)
next
  case (Suc m)
  from Suc.prems have now: "now < timeout_ms" and unlocked: "\<not> check k"
    by (auto dest: spec [of _ 0])
  have later: "\<forall>j<m. \<not> check (Suc k + j)"
    using Suc.prems(3) by (auto dest: spec [of _ "Suc j" for j])
  have "poll_with_timeout check read timeout_ms interval_ms (now + interval_ms) (Suc k)
        = (True, concat (replicate m [read, Sleep_ms interval_ms]) @ [read])"
    using Suc.prems later by (intro Suc.IH) (simp_all add: algebra_simps)
  then show ?case
    using now unlocked Suc.prems(1) by (subst poll_with_timeout.simps) simp
qed

lemma poll_with_timeout_never:
  "0 < interval_ms \<Longrightarrow> (\<forall>j<n. \<not> check (k + j)) \<Longrightarrow> timeout_ms \<le> now + n * interval_ms \<Longrightarrow>
   (0 < n \<longrightarrow> now + (n - 1) * interval_ms < timeout_ms) \<Longrightarrow>
   poll_with_timeout check read timeout_ms interval_ms now k =
     (False, concat (replicate n [read, Sleep_ms interval_ms]))"
proof (induction n arbitrary: now k)
  case 0
  then show ?case by (simp add: poll_with_timeout.simps)
next
  case (Suc n)
  from Suc.prems have now: "now < timeout_ms" and unlocked: "\<not> check k"
    by (auto dest: spec [of _ 0] intro: le_less_trans [rotated])
  have later: "\<forall>j<n. \<not> check (Suc k + j)"
    using Suc.prems(2) by (auto dest: spec [of _ "Suc j" for j])
  have "poll_with_timeout check read timeout_ms interval_ms (now + interval_ms) (Suc k)
        = (False, concat (replicate n [read, Sleep_ms interval_ms]))"
    using Suc.prems later by (intro Suc.IH) (auto simp: algebra_simps gr0_conv_Suc)
  then show ?case
    using now unlocked Suc.prems(1) by (subst poll_with_timeout.simps) simp
qed

lemma poll_40_locked:
  "m < 40 \<Longrightarrow> (\<forall>j<m. \<not> wr_lock j) \<Longrightarrow> wr_lock m \<Longrightarrow>
   poll_with_timeout wr_lock WrGetTimeLockStatus 40000 1000 0 0 =
     (True, concat (replicate m [WrGetTimeLockStatus, Sleep_ms 1000]) @ [WrGetTimeLockStatus])"
  using poll_with_timeout_locked [of 1000 0 m 40000 wr_lock 0] by simp

lemma poll_40_never:
  "(\<forall>j<40. \<not> wr_lock j) \<Longrightarrow>
   poll_with_timeout wr_lock WrGetTimeLockStatus 40000 1000 0 0 =
     (False, concat (replicate 40 [WrGetTimeLockStatus, Sleep_ms 1000]))"
  using poll_with_timeout_never [of 1000 40 wr_lock 0 40000 0] by simp

lemma poll_with_timeout_shape:
  "\<exists>m. poll_with_timeout check read timeout_ms interval_ms now k =
          (True, concat (replicate m [read, Sleep_ms interval_ms]) @ [read]) \<or>
        poll_with_timeout check read timeout_ms interval_ms now k =
          (False, concat (replicate m [read, Sleep_ms interval_ms]))"
proof (induction check read timeout_ms interval_ms now k rule: poll_with_timeout.induct)
  case (1 check read timeout_ms interval_ms now k)
  show ?case
  proof (cases "now < timeout_ms \<and> 0 < interval_ms")
    case False
    then have "poll_with_timeout check read timeout_ms interval_ms now k =
        (False, concat (replicate 0 [read, Sleep_ms interval_ms]))"
      by (subst poll_with_timeout.simps) auto
    then show ?thesis by blast
  next
    case True
    show ?thesis
    proof (cases "check k")
      case locked: True
      with True have "poll_with_timeout check read timeout_ms interval_ms now k =
          (True, concat (replicate 0 [read, Sleep_ms interval_ms]) @ [read])"
        by (subst poll_with_timeout.simps) simp
      then show ?thesis by blast
    next
      case unlocked: False
      from "1.IH" [OF True unlocked] obtain m where
        m: "poll_with_timeout check read timeout_ms interval_ms (now + interval_ms) (Suc k) =
              (True, concat (replicate m [read, Sleep_ms interval_ms]) @ [read]) \<or>
            poll_with_timeout check read timeout_ms interval_ms (now + interval_ms) (Suc k) =
              (False, concat (replicate m [read, Sleep_ms interval_ms]))"
        by blast
      from m True unlocked have
        "poll_with_timeout check read timeout_ms interval_ms now k =
              (True, concat (replicate (Suc m) [read, Sleep_ms interval_ms]) @ [read]) \<or>
         poll_with_timeout check read timeout_ms interval_ms now k =
              (False, concat (replicate (Suc m) [read, Sleep_ms interval_ms]))"
        by (subst (1 2) poll_with_timeout.simps) auto
      then show ?thesis by blast
    qed
  qed
qed

lemma slept_ms_append: "slept_ms (xs @ ys) = slept_ms xs + slept_ms ys"
  by (induction xs rule: slept_ms.induct) simp_all

lemma slept_ms_rounds:
  "slept_ms (concat (replicate n [WrGetTimeLockStatus, Sleep_ms i])) = n * i"
  by (induction n) simp_all

lemma slept_ms_safe: "slept_ms (map SetClkSafeState xs) = 0"
  by (induction xs) simp_all


subsection \<open>Runs that may raise\<close>

lemma clk_safe_loop_start:
  "\<exists>es rest. snd (clk_safe_loop k ds s) = emits es s \<and>
     map SetClkSafeState (safe_slots k ds) = es @ rest \<and>
     (fst (clk_safe_loop k ds s) = Inr () \<longrightarrow> rest = [])"
proof (induction ds arbitrary: k s)
  case Nil
  show ?case by (simp add: emits_Nil)
next
  case (Cons d ds)
  show ?case
  proof (cases "has_set_clk_safe_state d")
    case False
    with Cons.IH [of "Suc k" s] show ?thesis by simp
  next
    case has: True
    show ?thesis
    proof (cases "set_clk_safe_state_raises d")
      case True
      with has have "snd (clk_safe_loop k (d # ds) s) = emits [SetClkSafeState k] s"
        and "fst (clk_safe_loop k (d # ds) s) \<noteq> Inr ()"
        by (simp_all add: emit_is_emits)
      moreover from has have "map SetClkSafeState (safe_slots k (d # ds)) =
          [SetClkSafeState k] @ map SetClkSafeState (safe_slots (Suc k) ds)"
        by simp
      ultimately show ?thesis by blast
    next
      case False
      from Cons.IH [of "Suc k" "emit (SetClkSafeState k) s"] obtain es rest where
        run: "snd (clk_safe_loop (Suc k) ds (emit (SetClkSafeState k) s)) =
             emits es (emit (SetClkSafeState k) s)"
        and order: "map SetClkSafeState (safe_slots (Suc k) ds) = es @ rest"
        and fin: "fst (clk_safe_loop (Suc k) ds (emit (SetClkSafeState k) s)) = Inr () \<longrightarrow> rest = []"
        by blast
      from has False have step: "clk_safe_loop k (d # ds) s =
          clk_safe_loop (Suc k) ds (emit (SetClkSafeState k) s)"
        by simp
      have "snd (clk_safe_loop k (d # ds) s) = emits (SetClkSafeState k # es) s"
        unfolding step run by (simp add: emit_is_emits emits_emits)
      moreover from has order have "map SetClkSafeState (safe_slots k (d # ds)) =
          (SetClkSafeState k # es) @ rest"
        by simp
      moreover from fin have "fst (clk_safe_loop k (d # ds) s) = Inr () \<longrightarrow> rest = []"
        unfolding step .
      ultimately show ?thesis by blast
    qed
  qed
qed

lemma update_ref_clock_loop_start:
  "\<exists>es rest. snd (update_ref_clock_loop k ds (Some f) ts cs skip s) = emits es s \<and>
     map (\<lambda>i. UpdateRefClockFreq i f ts cs skip) [k..<k + length ds] = es @ rest"
proof (induction ds arbitrary: k s)
  case Nil
  show ?case by (simp add: emits_Nil)
next
  case (Cons d ds)
  have upt: "[k..<k + length (d # ds)] = k # [Suc k..<Suc k + length ds]"
    by (subst upt_rec) simp
  let ?e = "UpdateRefClockFreq k f ts cs skip"
  show ?case
  proof (cases "update_ref_clock_freq_raises d")
    case True
    then have "snd (update_ref_clock_loop k (d # ds) (Some f) ts cs skip s) = emits [?e] s"
      by (simp add: emit_is_emits)
    moreover have "map (\<lambda>i. UpdateRefClockFreq i f ts cs skip) [k..<k + length (d # ds)] =
        [?e] @ map (\<lambda>i. UpdateRefClockFreq i f ts cs skip) [Suc k..<Suc k + length ds]"
      unfolding upt by simp
    ultimately show ?thesis by blast
  next
    case False
    from Cons.IH [of "Suc k" "emit ?e s"] obtain es rest where
      run: "snd (update_ref_clock_loop (Suc k) ds (Some f) ts cs skip (emit ?e s)) =
           emits es (emit ?e s)"
      and order: "map (\<lambda>i. UpdateRefClockFreq i f ts cs skip) [Suc k..<Suc k + length ds] = es @ rest"
      by blast
    from False have step: "update_ref_clock_loop k (d # ds) (Some f) ts cs skip s =
        update_ref_clock_loop (Suc k) ds (Some f) ts cs skip (emit ?e s)"
      by simp
    have "snd (update_ref_clock_loop k (d # ds) (Some f) ts cs skip s) = emits (?e # es) s"
      unfolding step run by (simp add: emit_is_emits emits_emits)
    moreover from order have
      "map (\<lambda>i. UpdateRefClockFreq i f ts cs skip) [k..<k + length (d # ds)] = (?e # es) @ rest"
      unfolding upt by simp
    ultimately show ?thesis by blast
  qed
qed

lemma sfp0_time_lock_start:
  "\<exists>es rest m. snd (sfp0_time_lock wr_lock ts s) = emits es s \<and>
     concat (replicate m [WrGetTimeLockStatus, Sleep_ms 1000]) @ [WrGetTimeLockStatus] = es @ rest \<and>
     (fst (sfp0_time_lock wr_lock ts s) = Inr () \<longrightarrow> rest = [])"
proof -
  let ?rounds = "\<lambda>m. concat (replicate m [WrGetTimeLockStatus, Sleep_ms 1000])"
  from poll_with_timeout_shape [of wr_lock WrGetTimeLockStatus 40000 1000 0 0]
  obtain m where
    poll: "poll_with_timeout wr_lock WrGetTimeLockStatus 40000 1000 0 0 =
             (True, ?rounds m @ [WrGetTimeLockStatus]) \<or>
           poll_with_timeout wr_lock WrGetTimeLockStatus 40000 1000 0 0 = (False, ?rounds m)"
    by blast
  have "(\<exists>e. sfp0_time_lock wr_lock ts s = (Inl e, s)) \<or>
        sfp0_time_lock wr_lock ts s = (Inr (), emits (?rounds m @ [WrGetTimeLockStatus]) s) \<or>
        (\<exists>e. sfp0_time_lock wr_lock ts s = (Inl e, emits (?rounds m @ [WrGetTimeLockStatus]) s))"
    using poll by (auto simp: sfp0_time_lock_def emit_is_emits emits_emits)
  then consider (refused) e where "sfp0_time_lock wr_lock ts s = (Inl e, s)"
    | (locked) "sfp0_time_lock wr_lock ts s =
          (Inr (), emits (?rounds m @ [WrGetTimeLockStatus]) s)"
    | (timeout) e where "sfp0_time_lock wr_lock ts s =
          (Inl e, emits (?rounds m @ [WrGetTimeLockStatus]) s)"
    by blast
  then show ?thesis
  proof cases
    case (refused e)
    have "?rounds 0 @ [WrGetTimeLockStatus] = [] @ [WrGetTimeLockStatus]" by simp
    with refused show ?thesis
      by (intro exI [of _ "[]"] exI [of _ "[WrGetTimeLockStatus]"] exI [of _ 0])
         (simp add: emits_Nil)
  next
    case locked
    then show ?thesis
      by (intro exI [of _ "?rounds m @ [WrGetTimeLockStatus]"] exI [of _ "[]"] exI [of _ m]) simp
  next
    case (timeout e)
    then show ?thesis
      by (intro exI [of _ "?rounds m @ [WrGetTimeLockStatus]"] exI [of _ "[]"] exI [of _ m]) simp
  qed
qed

lemma switch_clock_source_start:
  "\<exists>es rest. hw_log (snd (switch_clock_source cs s)) = hw_log s @ es \<and>
     map SetClkSafeState (safe_slots 0 (dboards s)) @ [EnableRefClk False] @ set_clk_mainsel cs
       @ [StoreClockSource cs, Sleep_ms 100, EnableRefClk True] = es @ rest"
proof -
  from clk_safe_loop_start [of 0 "dboards s" s] obtain es0 rest0 where
    run: "snd (clk_safe_loop 0 (dboards s) s) = emits es0 s"
    and order: "map SetClkSafeState (safe_slots 0 (dboards s)) = es0 @ rest0"
    and fin: "fst (clk_safe_loop 0 (dboards s) s) = Inr () \<longrightarrow> rest0 = []"
    by blast
  show ?thesis
  proof (cases "fst (clk_safe_loop 0 (dboards s) s)")
    case (Inl e)
    with run have "clk_safe_loop 0 (dboards s) s = (Inl e, emits es0 s)"
      by (simp add: prod_eq_iff)
    then have "hw_log (snd (switch_clock_source cs s)) = hw_log s @ es0"
      by (simp add: switch_clock_source_def emits_def)
    with order show ?thesis by auto
  next
    case (Inr u)
    with run fin order have loop: "clk_safe_loop 0 (dboards s) s =
        (Inr (), emits (map SetClkSafeState (safe_slots 0 (dboards s))) s)"
      by (simp add: prod_eq_iff)
    let ?stored = "map SetClkSafeState (safe_slots 0 (dboards s)) @ [EnableRefClk False]
        @ set_clk_mainsel cs @ [StoreClockSource cs]"
    have "hw_log (snd (switch_clock_source cs s)) = hw_log s @ ?stored \<or>
          hw_log (snd (switch_clock_source cs s)) =
            hw_log s @ ?stored @ [Sleep_ms 100, EnableRefClk True]"
      by (simp add: switch_clock_source_def loop Let_def emit_def emits_def
            split: sum.splits option.splits)
    then show ?thesis
    proof
      assume "hw_log (snd (switch_clock_source cs s)) = hw_log s @ ?stored"
      then show ?thesis
        by (intro exI [of _ ?stored] exI [of _ "[Sleep_ms 100, EnableRefClk True]"]) simp
    next
      assume "hw_log (snd (switch_clock_source cs s)) =
          hw_log s @ ?stored @ [Sleep_ms 100, EnableRefClk True]"
      then show ?thesis
        by (intro exI [of _ "?stored @ [Sleep_ms 100, EnableRefClk True]"] exI [of _ "[]"]) simp
    qed
  qed
qed

lemma switch_time_source_start:
  assumes f: "get_ref_clock_freq s = Inr (Some f)"
  shows "\<exists>es rest m. hw_log (snd (switch_time_source wr_lock cs ts skip s)) = hw_log s @ es \<and>
     [StoreTimeSource ts, RegsSetTimeSource ts (Some f)]
       @ (if ts = ''sfp0''
          then concat (replicate m [WrGetTimeLockStatus, Sleep_ms 1000]) @ [WrGetTimeLockStatus]
          else [])
       @ map (\<lambda>i. UpdateRefClockFreq i f ts cs skip) [0..<length (dboards s)] = es @ rest"
proof -
  let ?told = "[StoreTimeSource ts, RegsSetTimeSource ts (Some f)]"
  let ?updates = "map (\<lambda>i. UpdateRefClockFreq i f ts cs skip) [0..<length (dboards s)]"
  define s2 where "s2 = s\<lparr>time_source := Some ts, hw_log := hw_log s @ ?told\<rparr>"
  have s2: "hw_log s2 = hw_log s @ ?told" "dboards s2 = dboards s"
    by (simp_all add: s2_def)
  have unfold: "switch_time_source wr_lock cs ts skip s =
      (case (if ts = ''sfp0'' then sfp0_time_lock wr_lock ts s2 else (Inr (), s2)) of
         (Inl e, s3) \<Rightarrow> (Inl e, s3)
       | (Inr _, s3) \<Rightarrow> update_ref_clock_loop 0 (dboards s3) (Some f) ts cs skip s3)"
    using f by (simp add: switch_time_source_def Let_def emit_def get_ref_clock_freq_log s2_def)
  have updates: "\<exists>es rest. hw_log (snd (update_ref_clock_loop 0 (dboards s3) (Some f) ts cs skip s3))
        = hw_log s3 @ es \<and> ?updates = es @ rest"
    if "dboards s3 = dboards s" for s3
    using update_ref_clock_loop_start [of 0 "dboards s3" f ts cs skip s3] that
    by (auto simp: emits_def)
  show ?thesis
  proof (cases "ts = ''sfp0''")
    case False
    from updates [of s2] s2 obtain es rest where
      "hw_log (snd (update_ref_clock_loop 0 (dboards s2) (Some f) ts cs skip s2)) = hw_log s @ ?told @ es"
      and "?updates = es @ rest"
      by auto
    with False show ?thesis
      by (intro exI [of _ "?told @ es"] exI [of _ rest] exI [of _ 0]) (simp add: unfold)
  next
    case True
    from sfp0_time_lock_start [of wr_lock ts s2] obtain es1 rest1 m where
      run: "snd (sfp0_time_lock wr_lock ts s2) = emits es1 s2"
      and order: "concat (replicate m [WrGetTimeLockStatus, Sleep_ms 1000]) @ [WrGetTimeLockStatus]
          = es1 @ rest1"
      and fin: "fst (sfp0_time_lock wr_lock ts s2) = Inr () \<longrightarrow> rest1 = []"
      by blast
    have unfold_sfp0: "switch_time_source wr_lock cs ts skip s =
        (case sfp0_time_lock wr_lock ts s2 of
           (Inl e, s3) \<Rightarrow> (Inl e, s3)
         | (Inr _, s3) \<Rightarrow> update_ref_clock_loop 0 (dboards s3) (Some f) ts cs skip s3)"
      unfolding unfold using True by simp
    show ?thesis
    proof (cases "fst (sfp0_time_lock wr_lock ts s2)")
      case (Inl e)
      with run have "sfp0_time_lock wr_lock ts s2 = (Inl e, emits es1 s2)"
        by (simp add: prod_eq_iff)
      then have "hw_log (snd (switch_time_source wr_lock cs ts skip s)) = hw_log s @ ?told @ es1"
        unfolding unfold_sfp0 by (simp add: emits_def s2)
      with True order show ?thesis
        by (intro exI [of _ "?told @ es1"] exI [of _ "rest1 @ ?updates"] exI [of _ m]) simp
    next
      case (Inr u)
      with run fin have lock: "sfp0_time_lock wr_lock ts s2 = (Inr (), emits es1 s2)"
        and rest1: "rest1 = []"
        by (simp_all add: prod_eq_iff)
      have s3: "dboards (emits es1 s2) = dboards s" "hw_log (emits es1 s2) = hw_log s @ ?told @ es1"
        by (simp_all add: emits_def s2)
      from updates [OF s3(1)] s3 obtain es rest where
        "hw_log (snd (update_ref_clock_loop 0 (dboards (emits es1 s2)) (Some f) ts cs skip
            (emits es1 s2))) = hw_log s @ ?told @ es1 @ es"
        and "?updates = es @ rest"
        by auto
      with True order rest1 show ?thesis
        unfolding unfold_sfp0 lock
        by (intro exI [of _ "?told @ es1 @ es"] exI [of _ rest] exI [of _ m]) simp
    qed
  qed
qed


subsection \<open>The whole sequence\<close>

lemma spec_apply_order_split:
  "spec_apply_order boards cs ts f m skip =
     (map SetClkSafeState (safe_slots 0 boards) @ [EnableRefClk False] @ set_clk_mainsel cs
        @ [StoreClockSource cs, Sleep_ms 100, EnableRefClk True])
     @ ([StoreTimeSource ts, RegsSetTimeSource ts (Some f)]
        @ (if ts = ''sfp0''
           then concat (replicate m [WrGetTimeLockStatus, Sleep_ms 1000]) @ [WrGetTimeLockStatus]
           else [])
        @ map (\<lambda>i. UpdateRefClockFreq i f ts cs skip) [0..<length boards])"
  using safe_slots_filter [of 0 boards]
  by (simp add: spec_apply_order_def set_clk_mainsel_def)

lemma switch_clock_source_returns:
  assumes ok: "fst (switch_clock_source cs s) = Inr ()"
  shows "\<exists>f. get_ref_clock_freq (s\<lparr>clock_source := Some cs\<rparr>) = Inr (Some f) \<and>
     switch_clock_source cs s =
       (Inr (), s\<lparr>clock_source := Some cs,
                  hw_log := hw_log s @ map SetClkSafeState (safe_slots 0 (dboards s))
                    @ [EnableRefClk False] @ set_clk_mainsel cs
                    @ [StoreClockSource cs, Sleep_ms 100, EnableRefClk True]\<rparr>)"
proof -
  from clk_safe_loop_start [of 0 "dboards s" s] obtain es0 rest0 where
    run: "snd (clk_safe_loop 0 (dboards s) s) = emits es0 s"
    and order: "map SetClkSafeState (safe_slots 0 (dboards s)) = es0 @ rest0"
    and fin: "fst (clk_safe_loop 0 (dboards s) s) = Inr () \<longrightarrow> rest0 = []"
    by blast
  obtain r0 s0 where p0: "clk_safe_loop 0 (dboards s) s = (r0, s0)"
    by (cases "clk_safe_loop 0 (dboards s) s")
  have r0: "r0 = Inr ()"
  proof (cases r0)
    case (Inl e)
    with p0 have "fst (switch_clock_source cs s) = Inl e"
      by (simp add: switch_clock_source_def)
    with ok show ?thesis by simp
  qed simp
  from p0 r0 run fin order have loop: "clk_safe_loop 0 (dboards s) s =
      (Inr (), emits (map SetClkSafeState (safe_slots 0 (dboards s))) s)"
    by simp
  show ?thesis
    using ok
    by (simp add: switch_clock_source_def loop Let_def emit_def emits_def get_ref_clock_freq_log
          split: sum.splits option.splits)
qed

lemma apply_sync_source_start:
  assumes freq: "get_ref_clock_freq (s\<lparr>clock_source := Some cs\<rparr>) = Inr (Some f) \<or>
                 get_ref_clock_freq (s\<lparr>clock_source := Some cs\<rparr>) = Inr None"
  shows "\<exists>m es rest. hw_log (snd (apply_sync_source wr_lock cs ts skip s)) = hw_log s @ es \<and>
      spec_apply_order (dboards s) cs ts f m skip = es @ rest"
proof -
  define P1 where "P1 = map SetClkSafeState (safe_slots 0 (dboards s)) @ [EnableRefClk False]
      @ set_clk_mainsel cs @ [StoreClockSource cs, Sleep_ms 100, EnableRefClk True]"
  define P2 where "P2 = (\<lambda>m. [StoreTimeSource ts, RegsSetTimeSource ts (Some f)]
      @ (if ts = ''sfp0''
         then concat (replicate m [WrGetTimeLockStatus, Sleep_ms 1000]) @ [WrGetTimeLockStatus]
         else [])
      @ map (\<lambda>i. UpdateRefClockFreq i f ts cs skip) [0..<length (dboards s)])"
  have split: "spec_apply_order (dboards s) cs ts f m skip = P1 @ P2 m" for m
    unfolding spec_apply_order_split P1_def P2_def ..
  obtain r1 s1 where p1: "switch_clock_source cs s = (r1, s1)"
    by (cases "switch_clock_source cs s")
  show ?thesis
  proof (cases r1)
    case (Inl e)
    with p1 have eq: "apply_sync_source wr_lock cs ts skip s = switch_clock_source cs s"
      by (simp add: apply_sync_source_def)
    from switch_clock_source_start [of cs s] obtain es rest where
      "hw_log (snd (switch_clock_source cs s)) = hw_log s @ es" and "P1 = es @ rest"
      unfolding P1_def by blast
    then show ?thesis
      unfolding split eq
      by (intro exI [of _ 0] exI [of _ es] exI [of _ "rest @ P2 0"]) simp
  next
    case (Inr u)
    with p1 have ok: "fst (switch_clock_source cs s) = Inr ()" by simp
    from switch_clock_source_returns [OF ok] p1 obtain f' where
      f': "get_ref_clock_freq (s\<lparr>clock_source := Some cs\<rparr>) = Inr (Some f')"
      and s1: "s1 = s\<lparr>clock_source := Some cs, hw_log := hw_log s @ P1\<rparr>"
      unfolding P1_def by auto
    from f' freq have f: "get_ref_clock_freq (s\<lparr>clock_source := Some cs\<rparr>) = Inr (Some f)"
      by auto
    have f1: "get_ref_clock_freq s1 = Inr (Some f)"
      using f by (simp add: s1 get_ref_clock_freq_log)
    have s1_frame: "hw_log s1 = hw_log s @ P1" "dboards s1 = dboards s"
      by (simp_all add: s1)
    have eq: "apply_sync_source wr_lock cs ts skip s = switch_time_source wr_lock cs ts skip s1"
      using p1 Inr by (simp add: apply_sync_source_def)
    from switch_time_source_start [OF f1, of wr_lock cs ts skip] obtain es rest m where
      "hw_log (snd (switch_time_source wr_lock cs ts skip s1)) = hw_log s1 @ es"
      and "P2 m = es @ rest"
      unfolding P2_def s1_frame by blast
    then show ?thesis
      unfolding split eq s1_frame
      by (intro exI [of _ m] exI [of _ "P1 @ es"] exI [of _ rest]) simp
  qed
qed

lemma sfp0_time_lock_ok:
  assumes "get_clock_source s = Some ''internal''"
    and "fpga_type s \<in> set sfp_time_source_images"
    and "m < 40" and "\<forall>k<m. \<not> wr_lock k" and "wr_lock m"
  shows "sfp0_time_lock wr_lock ''sfp0'' s =
     (Inr (), emits (concat (replicate m [WrGetTimeLockStatus, Sleep_ms 1000])
                     @ [WrGetTimeLockStatus]) s)"
  using assms(1,2) by (simp add: sfp0_time_lock_def poll_40_locked [OF assms(3-5)])

lemma switch_time_source_ok:
  assumes f: "get_ref_clock_freq s = Inr (Some f)"
    and upd: "\<forall>d\<in>set (dboards s). \<not> update_ref_clock_freq_raises d"
    and wr: "ts = ''sfp0'' \<longrightarrow> clock_source s = Some ''internal'' \<and>
        fpga_type s \<in> set sfp_time_source_images \<and> m < 40 \<and> (\<forall>k<m. \<not> wr_lock k) \<and> wr_lock m"
  shows "switch_time_source wr_lock cs ts skip s =
     (Inr (), s\<lparr>time_source := Some ts,
                hw_log := hw_log s @ [StoreTimeSource ts, RegsSetTimeSource ts (Some f)]
                  @ (if ts = ''sfp0''
                     then concat (replicate m [WrGetTimeLockStatus, Sleep_ms 1000])
                          @ [WrGetTimeLockStatus]
                     else [])
                  @ map (\<lambda>i. UpdateRefClockFreq i f ts cs skip) [0..<length (dboards s)]\<rparr>)"
proof (cases "ts = ''sfp0''")
  case False
  then show ?thesis
    using f update_ref_clock_loop_ok [OF upd, of 0 f ts cs skip]
    by (simp add: switch_time_source_def Let_def emit_def emits_def get_ref_clock_freq_log
          update_ref_clock_loop_ok upd)
next
  case True
  let ?s2 = "s\<lparr>time_source := Some ''sfp0'',
      hw_log := hw_log s @ [StoreTimeSource ''sfp0'', RegsSetTimeSource ''sfp0'' (Some f)]\<rparr>"
  from True wr have lock: "sfp0_time_lock wr_lock ''sfp0'' ?s2 =
      (Inr (), emits (concat (replicate m [WrGetTimeLockStatus, Sleep_ms 1000])
                      @ [WrGetTimeLockStatus]) ?s2)"
    by (intro sfp0_time_lock_ok) (simp_all add: get_clock_source_def)
  have upd': "\<forall>d\<in>set (dboards (emits es ?s2)). \<not> update_ref_clock_freq_raises d" for es
    using upd by (simp add: emits_def)
  show ?thesis
    using f True
    by (simp add: switch_time_source_def Let_def emit_def get_ref_clock_freq_log lock
          update_ref_clock_loop_ok [OF upd'])
       (simp add: emits_def)
qed

lemma apply_sync_source_ok:
  assumes safe: "\<forall>d\<in>set (dboards s). has_set_clk_safe_state d \<longrightarrow> \<not> set_clk_safe_state_raises d"
    and upd: "\<forall>d\<in>set (dboards s). \<not> update_ref_clock_freq_raises d"
    and f: "get_ref_clock_freq (s\<lparr>clock_source := Some cs\<rparr>) = Inr (Some f)"
    and wr: "ts = ''sfp0'' \<longrightarrow> cs = ''internal'' \<and>
        fpga_type s \<in> set sfp_time_source_images \<and> m < 40 \<and> (\<forall>k<m. \<not> wr_lock k) \<and> wr_lock m"
  shows "apply_sync_source wr_lock cs ts skip s =
     (Inr (), s\<lparr>clock_source := Some cs, time_source := Some ts,
                hw_log := hw_log s @ spec_apply_order (dboards s) cs ts f m skip\<rparr>)"
proof -
  let ?s1 = "s\<lparr>clock_source := Some cs,
      hw_log := hw_log s @ map SetClkSafeState (safe_slots 0 (dboards s))
        @ [EnableRefClk False] @ set_clk_mainsel cs
        @ [StoreClockSource cs, Sleep_ms 100, EnableRefClk True]\<rparr>"
  have f1: "get_ref_clock_freq ?s1 = Inr (Some f)"
    using f by (simp add: get_ref_clock_freq_log)
  have upd1: "\<forall>d\<in>set (dboards ?s1). \<not> update_ref_clock_freq_raises d"
    using upd by simp
  have wr1: "ts = ''sfp0'' \<longrightarrow> clock_source ?s1 = Some ''internal'' \<and>
        fpga_type ?s1 \<in> set sfp_time_source_images \<and> m < 40 \<and> (\<forall>k<m. \<not> wr_lock k) \<and> wr_lock m"
    using wr by simp
  have p1: "switch_clock_source cs s = (Inr (), ?s1)"
    by (rule switch_clock_source_ok [OF safe f])
  have eq: "apply_sync_source wr_lock cs ts skip s = switch_time_source wr_lock cs ts skip ?s1"
    unfolding apply_sync_source_def p1 by simp
  show ?thesis
    unfolding eq switch_time_source_ok [OF f1 upd1 wr1] spec_apply_order_split by simp
qed


text \<open>
  C2. A call of \<^verbatim>\<open>set_sync_source\<close> that resolves a new pair of \<open>valid_sync_sources\<close>
  makes its calls in the order of \<open>spec_apply_order\<close>: the safe state of every
  daughterboard that has one, in slot order; the reference clock disabled; the three
  CLK-MAINSEL lines in the setting of the new clock source; the clock source stored and the
  sleep of 100 ms; the reference clock enabled; the time source stored and the register
  block told of it; for \<^verbatim>\<open>sfp0\<close> the reads of the lock status, a sleep of 1000 ms after
  each read that was not locked; the update of every daughterboard with the frequency of the
  new clock source and the two names.
  \<^item> When no daughterboard raises and the frequency of an external clock source is known
    and, for \<^verbatim>\<open>sfp0\<close>, the FPGA image type is supported and the read number \<open>m\<close>
    (below 40) is the first that is locked, the call returns, the log has grown by the whole
    sequence and by nothing else, and the two fields hold the new pair.
  \<^item> In every run, also one that a daughterboard, the unknown frequency, the image type or
    the poll ends with an error, the calls made are a start of that sequence.
\<close>

theorem set_sync_source_apply_order:
  assumes cs: "args_get (arg_clock_source args) (clock_source s) = Some cs"
    and ts: "args_get (arg_time_source args) (time_source s) = Some ts"
    and valid: "(cs, ts) \<in> valid_sync_sources"
    and new: "\<not> (clock_source s = Some cs \<and> time_source s = Some ts)"
    and freq: "cs = ''internal'' \<and> f = 25000000 \<or> cs = ''gpsdo'' \<and> f = 20000000 \<or>
               cs = ''external'' \<and> (ext_clock_freq s = Some f \<or> ext_clock_freq s = None)"
  shows "((\<forall>d\<in>set (dboards s).
             \<not> (has_set_clk_safe_state d \<and> set_clk_safe_state_raises d) \<and>
             \<not> update_ref_clock_freq_raises d) \<and>
          (cs = ''external'' \<longrightarrow> ext_clock_freq s = Some f) \<and>
          (ts = ''sfp0'' \<longrightarrow> fpga_type s \<in> set sfp_time_source_images \<and> m < 40 \<and>
             (\<forall>k<m. \<not> wr_lock k) \<and> wr_lock m) \<longrightarrow>
          set_sync_source wr_lock args s =
            (Inr (), s\<lparr>clock_source := Some cs, time_source := Some ts,
                       hw_log := hw_log s
                         @ spec_apply_order (dboards s) cs ts f m (arg_skip_rfic args)\<rparr>)) \<and>
         (\<exists>n es rest.
            hw_log (snd (set_sync_source wr_lock args s)) = hw_log s @ es \<and>
            spec_apply_order (dboards s) cs ts f n (arg_skip_rfic args) = es @ rest)"
proof -
  from valid have sup: "cs \<in> set get_clock_sources" "ts \<in> set get_time_sources"
    by (auto simp: valid_sync_sources_def get_clock_sources_def get_time_sources_def)
  have eq: "set_sync_source wr_lock args s = apply_sync_source wr_lock cs ts (arg_skip_rfic args) s"
    using cs ts valid new sup by (auto simp: set_sync_source_def)
  from valid have internal: "ts = ''sfp0'' \<longrightarrow> cs = ''internal''"
    by (auto simp: valid_sync_sources_def)
  have returns: "set_sync_source wr_lock args s =
      (Inr (), s\<lparr>clock_source := Some cs, time_source := Some ts,
                 hw_log := hw_log s @ spec_apply_order (dboards s) cs ts f m (arg_skip_rfic args)\<rparr>)"
    if boards: "\<forall>d\<in>set (dboards s).
             \<not> (has_set_clk_safe_state d \<and> set_clk_safe_state_raises d) \<and>
             \<not> update_ref_clock_freq_raises d"
      and known: "cs = ''external'' \<longrightarrow> ext_clock_freq s = Some f"
      and wr: "ts = ''sfp0'' \<longrightarrow> fpga_type s \<in> set sfp_time_source_images \<and> m < 40 \<and>
             (\<forall>k<m. \<not> wr_lock k) \<and> wr_lock m"
  proof -
    from boards have safe:
        "\<forall>d\<in>set (dboards s). has_set_clk_safe_state d \<longrightarrow> \<not> set_clk_safe_state_raises d"
      and upd: "\<forall>d\<in>set (dboards s). \<not> update_ref_clock_freq_raises d"
      by auto
    from freq known have f: "get_ref_clock_freq (s\<lparr>clock_source := Some cs\<rparr>) = Inr (Some f)"
      unfolding get_ref_clock_freq_Some by auto
    from wr internal have wr': "ts = ''sfp0'' \<longrightarrow> cs = ''internal'' \<and>
        fpga_type s \<in> set sfp_time_source_images \<and> m < 40 \<and> (\<forall>k<m. \<not> wr_lock k) \<and> wr_lock m"
      by simp
    show ?thesis
      unfolding eq by (rule apply_sync_source_ok [OF safe upd f wr'])
  qed
  from freq have "get_ref_clock_freq (s\<lparr>clock_source := Some cs\<rparr>) = Inr (Some f) \<or>
      get_ref_clock_freq (s\<lparr>clock_source := Some cs\<rparr>) = Inr None"
    by (auto simp: get_ref_clock_freq_def)
  from apply_sync_source_start [OF this, of wr_lock ts "arg_skip_rfic args"]
  have "\<exists>n es rest.
      hw_log (snd (set_sync_source wr_lock args s)) = hw_log s @ es \<and>
      spec_apply_order (dboards s) cs ts f n (arg_skip_rfic args) = es @ rest"
    unfolding eq .
  with returns show ?thesis by blast
qed

theorem set_sync_source_apply_order_witness:
  "set_sync_source locks_at_third sfp0_args bench =
     (Inr (), bench\<lparr>clock_source := Some ''internal'', time_source := Some ''sfp0'',
        hw_log := [SetClkSafeState 1, EnableRefClk False, GpioSet ''CLK-MAINSEL-EX_B'',
          GpioSet ''CLK-MAINSEL-25MHz'', GpioReset ''CLK-MAINSEL-GPS'',
          StoreClockSource ''internal'', Sleep_ms 100, EnableRefClk True,
          StoreTimeSource ''sfp0'', RegsSetTimeSource ''sfp0'' (Some 25000000),
          WrGetTimeLockStatus, Sleep_ms 1000, WrGetTimeLockStatus, Sleep_ms 1000,
          WrGetTimeLockStatus,
          UpdateRefClockFreq 0 25000000 ''sfp0'' ''internal'' None,
          UpdateRefClockFreq 1 25000000 ''sfp0'' ''internal'' None]\<rparr>) \<and>
   set_sync_source never_locked ext_args bench =
     (Inr (), bench\<lparr>clock_source := Some ''external'', time_source := Some ''external'',
        hw_log := [SetClkSafeState 1, EnableRefClk False, GpioReset ''CLK-MAINSEL-EX_B'',
          GpioReset ''CLK-MAINSEL-GPS'', GpioSet ''CLK-MAINSEL-25MHz'',
          StoreClockSource ''external'', Sleep_ms 100, EnableRefClk True,
          StoreTimeSource ''external'', RegsSetTimeSource ''external'' (Some 10000000),
          UpdateRefClockFreq 0 10000000 ''external'' ''external'' None,
          UpdateRefClockFreq 1 10000000 ''external'' ''external'' None]\<rparr>)"
proof -
  have slots: "[0..<2] = [0, 1]" "replicate 2 x = [x, x]" for x :: "event list"
    by (simp_all add: numeral_2_eq_2)
  have a: "args_get (arg_clock_source sfp0_args) (clock_source bench) = Some ''internal''"
    and b: "args_get (arg_time_source sfp0_args) (time_source bench) = Some ''sfp0''"
    and c: "(''internal'', ''sfp0'') \<in> valid_sync_sources"
    and d: "\<not> (clock_source bench = Some ''internal'' \<and> time_source bench = Some ''sfp0'')"
    and e: "''internal'' = ''internal'' \<and> (25000000::real) = 25000000 \<or>
            ''internal'' = ''gpsdo'' \<and> (25000000::real) = 20000000 \<or>
            ''internal'' = ''external'' \<and>
              (ext_clock_freq bench = Some 25000000 \<or> ext_clock_freq bench = None)"
    by (simp_all add: bench_defs sfp0_args_def)
  have a': "args_get (arg_clock_source ext_args) (clock_source bench) = Some ''external''"
    and b': "args_get (arg_time_source ext_args) (time_source bench) = Some ''external''"
    and c': "(''external'', ''external'') \<in> valid_sync_sources"
    and d': "\<not> (clock_source bench = Some ''external'' \<and> time_source bench = Some ''external'')"
    and e': "''external'' = ''internal'' \<and> (10000000::real) = 25000000 \<or>
            ''external'' = ''gpsdo'' \<and> (10000000::real) = 20000000 \<or>
            ''external'' = ''external'' \<and>
              (ext_clock_freq bench = Some 10000000 \<or> ext_clock_freq bench = None)"
    by (simp_all add: bench_defs)
  have w1: "set_sync_source locks_at_third sfp0_args bench =
      (Inr (), bench\<lparr>clock_source := Some ''internal'', time_source := Some ''sfp0'',
         hw_log := hw_log bench @ spec_apply_order (dboards bench) ''internal'' ''sfp0''
           25000000 2 (arg_skip_rfic sfp0_args)\<rparr>)"
    by (rule set_sync_source_apply_order [OF a b c d e, of 2 locks_at_third,
          THEN conjunct1, THEN mp])
       (simp add: bench_defs sfp_time_source_images_def locks_at_third_def less_Suc_eq
          numeral_2_eq_2)
  have w2: "set_sync_source never_locked ext_args bench =
      (Inr (), bench\<lparr>clock_source := Some ''external'', time_source := Some ''external'',
         hw_log := hw_log bench @ spec_apply_order (dboards bench) ''external'' ''external''
           10000000 0 (arg_skip_rfic ext_args)\<rparr>)"
    by (rule set_sync_source_apply_order [OF a' b' c' d' e', of 0 never_locked,
          THEN conjunct1, THEN mp])
       (simp add: bench_defs)
  show ?thesis
    unfolding w1 w2
    by (simp add: spec_apply_order_def bench_defs sfp0_args_def slots)
qed


section \<open>The White Rabbit time source\<close>

lemma switch_clock_source_internal:
  assumes "\<forall>d\<in>set (dboards s). has_set_clk_safe_state d \<longrightarrow> \<not> set_clk_safe_state_raises d"
  shows "switch_clock_source ''internal'' s =
     (Inr (), s\<lparr>clock_source := Some ''internal'',
                hw_log := hw_log s @ map SetClkSafeState (safe_slots 0 (dboards s))
                  @ [EnableRefClk False, GpioSet ''CLK-MAINSEL-EX_B'', GpioSet ''CLK-MAINSEL-25MHz'',
                     GpioReset ''CLK-MAINSEL-GPS'', StoreClockSource ''internal'', Sleep_ms 100,
                     EnableRefClk True]\<rparr>)"
  by (simp add: switch_clock_source_def clk_safe_loop_ok [OF assms] emit_def emits_def
        get_ref_clock_freq_def set_clk_mainsel_def)

lemma sfp0_unsupported_clock:
  "cs \<in> set get_clock_sources \<Longrightarrow> cs \<noteq> ''internal'' \<Longrightarrow> (cs, ''sfp0'') \<notin> valid_sync_sources"
  by (auto simp: valid_sync_sources_def)

text \<open>
  C4. A call that resolves a new pair with the time source \<^verbatim>\<open>sfp0\<close>, on a device whose
  daughterboards take the safe state without raising:
  \<^item> fails when the clock source is not \<^verbatim>\<open>internal\<close>; the pair is then outside
    \<open>valid_sync_sources\<close>, so this failure comes before anything is written;
  \<^item> fails with a runtime error when the loaded FPGA image type is not one of
    \<open>sfp_time_source_images\<close>;
  \<^item> otherwise polls the lock status, sleeping 1000 ms after every read that is not locked.
    When none of the first 40 reads is locked the 40000 ms of the timeout have been slept:
    the call then fails with the runtime error of the timebase, after one more read for its
    log line, and the sleeps of the whole call add up to the 100 ms of the settling time and
    40000 ms. When read number \<open>m\<close> is the first that is locked, the poll ends there, after
    \<open>m\<close> sleeps of 1000 ms, and the daughterboards are updated.
  In the two runtime errors the object is left with both source fields set to the new pair
  and with every call of the first six steps in the log: nothing is rolled back.
\<close>

theorem set_sync_source_sfp0:
  assumes cs: "args_get (arg_clock_source args) (clock_source s) = Some cs"
    and ts: "args_get (arg_time_source args) (time_source s) = Some ''sfp0''"
    and sup: "cs \<in> set get_clock_sources"
    and new: "\<not> (clock_source s = Some cs \<and> time_source s = Some ''sfp0'')"
    and safe: "\<forall>d\<in>set (dboards s). has_set_clk_safe_state d \<longrightarrow> \<not> set_clk_safe_state_raises d"
  shows
   "(let applied = s\<lparr>clock_source := Some ''internal'', time_source := Some ''sfp0'',
        hw_log := hw_log s
          @ map SetClkSafeState
              [i \<leftarrow> [0..<length (dboards s)]. has_set_clk_safe_state (dboards s ! i)]
          @ [EnableRefClk False, GpioSet ''CLK-MAINSEL-EX_B'', GpioSet ''CLK-MAINSEL-25MHz'',
             GpioReset ''CLK-MAINSEL-GPS'', StoreClockSource ''internal'', Sleep_ms 100,
             EnableRefClk True, StoreTimeSource ''sfp0'',
             RegsSetTimeSource ''sfp0'' (Some 25000000)]\<rparr>;
         polls = (\<lambda>m. concat (replicate m [WrGetTimeLockStatus, Sleep_ms 1000]))
     in
       (cs \<noteq> ''internal'' \<longrightarrow>
          set_sync_source wr_lock args s = (Inl AssertionError, s)) \<and>
       (cs = ''internal'' \<and> fpga_type s \<notin> set sfp_time_source_images \<longrightarrow>
          set_sync_source wr_lock args s =
            (Inl (RuntimeError ''time source requires FPGA types WX''), applied)) \<and>
       (cs = ''internal'' \<and> fpga_type s \<in> set sfp_time_source_images \<and>
        (\<forall>k<40. \<not> wr_lock k) \<longrightarrow>
          set_sync_source wr_lock args s =
            (Inl (RuntimeError ''Failed to lock SFP timebase.''),
             emits (polls 40 @ [WrGetTimeLockStatus]) applied) \<and>
          slept_ms (hw_log (snd (set_sync_source wr_lock args s))) =
            slept_ms (hw_log s) + 100 + 40000) \<and>
       (\<forall>m<40. cs = ''internal'' \<and> fpga_type s \<in> set sfp_time_source_images \<and>
          (\<forall>k<m. \<not> wr_lock k) \<and> wr_lock m \<longrightarrow>
          set_sync_source wr_lock args s =
            update_ref_clock_loop 0 (dboards s) (Some 25000000) ''sfp0'' ''internal''
              (arg_skip_rfic args) (emits (polls m @ [WrGetTimeLockStatus]) applied) \<and>
          slept_ms (hw_log (emits (polls m @ [WrGetTimeLockStatus]) applied)) =
            slept_ms (hw_log s) + 100 + m * 1000))"
proof -
  have slots: "safe_slots 0 (dboards s)
      = [i \<leftarrow> [0..<length (dboards s)]. has_set_clk_safe_state (dboards s ! i)]"
    using safe_slots_filter [of 0 "dboards s"] by simp
  have refused: "set_sync_source wr_lock args s = (Inl AssertionError, s)" if "cs \<noteq> ''internal''"
    using cs ts sup new sfp0_unsupported_clock [OF sup that]
    by (auto simp: set_sync_source_def get_time_sources_def)
  have run: "set_sync_source wr_lock args s =
      (case sfp0_time_lock wr_lock ''sfp0''
         (s\<lparr>clock_source := Some ''internal'', time_source := Some ''sfp0'',
            hw_log := hw_log s @ map SetClkSafeState (safe_slots 0 (dboards s))
              @ [EnableRefClk False, GpioSet ''CLK-MAINSEL-EX_B'', GpioSet ''CLK-MAINSEL-25MHz'',
                 GpioReset ''CLK-MAINSEL-GPS'', StoreClockSource ''internal'', Sleep_ms 100,
                 EnableRefClk True, StoreTimeSource ''sfp0'',
                 RegsSetTimeSource ''sfp0'' (Some 25000000)]\<rparr>) of
         (Inl e, s3) \<Rightarrow> (Inl e, s3)
       | (Inr _, s3) \<Rightarrow>
           update_ref_clock_loop 0 (dboards s3) (Some 25000000) ''sfp0'' ''internal''
             (arg_skip_rfic args) s3)"
    if "cs = ''internal''"
    using cs ts new that
    by (auto simp: set_sync_source_def get_time_sources_def get_clock_sources_def
          valid_sync_sources_def apply_sync_source_def switch_clock_source_internal [OF safe]
          switch_time_source_def get_ref_clock_freq_def emit_def)
  show ?thesis
    unfolding Let_def slots [symmetric]
    by (auto simp: refused run sfp0_time_lock_def get_clock_source_def emits_def emit_def
          poll_40_never poll_40_locked slept_ms_append slept_ms_safe slept_ms_rounds)
qed


theorem set_sync_source_sfp0_witness:
  "set_sync_source never_locked sfp0_args (bench\<lparr>fpga_type := ''HG''\<rparr>) =
     (Inl (RuntimeError ''time source requires FPGA types WX''),
      bench\<lparr>fpga_type := ''HG'', time_source := Some ''sfp0'',
        hw_log := [SetClkSafeState 1, EnableRefClk False, GpioSet ''CLK-MAINSEL-EX_B'',
          GpioSet ''CLK-MAINSEL-25MHz'', GpioReset ''CLK-MAINSEL-GPS'',
          StoreClockSource ''internal'', Sleep_ms 100, EnableRefClk True,
          StoreTimeSource ''sfp0'', RegsSetTimeSource ''sfp0'' (Some 25000000)]\<rparr>) \<and>
   fst (set_sync_source never_locked sfp0_args bench)
     = Inl (RuntimeError ''Failed to lock SFP timebase.'') \<and>
   time_source (snd (set_sync_source never_locked sfp0_args bench)) = Some ''sfp0'' \<and>
   hw_log (snd (set_sync_source never_locked sfp0_args bench)) =
     [SetClkSafeState 1, EnableRefClk False, GpioSet ''CLK-MAINSEL-EX_B'',
      GpioSet ''CLK-MAINSEL-25MHz'', GpioReset ''CLK-MAINSEL-GPS'',
      StoreClockSource ''internal'', Sleep_ms 100, EnableRefClk True,
      StoreTimeSource ''sfp0'', RegsSetTimeSource ''sfp0'' (Some 25000000)]
     @ concat (replicate 40 [WrGetTimeLockStatus, Sleep_ms 1000]) @ [WrGetTimeLockStatus] \<and>
   slept_ms (hw_log (snd (set_sync_source never_locked sfp0_args bench))) = 40100 \<and>
   set_sync_source locks_at_third sfp0_args bench =
     (Inr (), bench\<lparr>time_source := Some ''sfp0'',
        hw_log := [SetClkSafeState 1, EnableRefClk False, GpioSet ''CLK-MAINSEL-EX_B'',
          GpioSet ''CLK-MAINSEL-25MHz'', GpioReset ''CLK-MAINSEL-GPS'',
          StoreClockSource ''internal'', Sleep_ms 100, EnableRefClk True,
          StoreTimeSource ''sfp0'', RegsSetTimeSource ''sfp0'' (Some 25000000),
          WrGetTimeLockStatus, Sleep_ms 1000, WrGetTimeLockStatus, Sleep_ms 1000,
          WrGetTimeLockStatus,
          UpdateRefClockFreq 0 25000000 ''sfp0'' ''internal'' None,
          UpdateRefClockFreq 1 25000000 ''sfp0'' ''internal'' None]\<rparr>) \<and>
   set_sync_source never_locked bad_args bench = (Inl AssertionError, bench)"
proof -
  have a: "args_get (arg_clock_source sfp0_args) (clock_source (bench\<lparr>fpga_type := ''HG''\<rparr>))
             = Some ''internal''"
    and b: "args_get (arg_time_source sfp0_args) (time_source (bench\<lparr>fpga_type := ''HG''\<rparr>))
             = Some ''sfp0''"
    and a': "args_get (arg_clock_source sfp0_args) (clock_source bench) = Some ''internal''"
    and b': "args_get (arg_time_source sfp0_args) (time_source bench) = Some ''sfp0''"
    and a'': "args_get (arg_clock_source bad_args) (clock_source bench) = Some ''external''"
    and b'': "args_get (arg_time_source bad_args) (time_source bench) = Some ''sfp0''"
    and c: "''internal'' \<in> set get_clock_sources" "''external'' \<in> set get_clock_sources"
    and d: "\<not> (clock_source (bench\<lparr>fpga_type := ''HG''\<rparr>) = Some ''internal'' \<and>
               time_source (bench\<lparr>fpga_type := ''HG''\<rparr>) = Some ''sfp0'')"
    and d': "\<not> (clock_source bench = Some ''internal'' \<and> time_source bench = Some ''sfp0'')"
    and d'': "\<not> (clock_source bench = Some ''external'' \<and> time_source bench = Some ''sfp0'')"
    and e: "\<forall>d\<in>set (dboards (bench\<lparr>fpga_type := ''HG''\<rparr>)).
               has_set_clk_safe_state d \<longrightarrow> \<not> set_clk_safe_state_raises d"
    and e': "\<forall>d\<in>set (dboards bench). has_set_clk_safe_state d \<longrightarrow> \<not> set_clk_safe_state_raises d"
    by (simp_all add: bench_defs sfp0_args_def)
  have l: "\<forall>k<40. \<not> never_locked k"
    by (simp add: never_locked_def)
  have w1: "set_sync_source never_locked sfp0_args (bench\<lparr>fpga_type := ''HG''\<rparr>) =
     (Inl (RuntimeError ''time source requires FPGA types WX''),
      bench\<lparr>fpga_type := ''HG'', time_source := Some ''sfp0'',
        hw_log := [SetClkSafeState 1, EnableRefClk False, GpioSet ''CLK-MAINSEL-EX_B'',
          GpioSet ''CLK-MAINSEL-25MHz'', GpioReset ''CLK-MAINSEL-GPS'',
          StoreClockSource ''internal'', Sleep_ms 100, EnableRefClk True,
          StoreTimeSource ''sfp0'', RegsSetTimeSource ''sfp0'' (Some 25000000)]\<rparr>)"
    using set_sync_source_sfp0 [OF a b c(1) d e, of never_locked]
    by (simp add: Let_def bench_defs sfp_time_source_images_def)
  have unlocked: "''internal'' = ''internal'' \<and> fpga_type bench \<in> set sfp_time_source_images \<and>
      (\<forall>k<40. \<not> never_locked k)"
    by (simp add: bench_def sfp_time_source_images_def never_locked_def)
  note timeout = set_sync_source_sfp0 [OF a' b' c(1) d' e', of never_locked, unfolded Let_def,
      THEN conjunct2, THEN conjunct2, THEN conjunct1, THEN mp, OF unlocked]
  from timeout [THEN conjunct1]
  have w2: "set_sync_source never_locked sfp0_args bench =
     (Inl (RuntimeError ''Failed to lock SFP timebase.''),
      bench\<lparr>time_source := Some ''sfp0'',
        hw_log := [SetClkSafeState 1, EnableRefClk False, GpioSet ''CLK-MAINSEL-EX_B'',
          GpioSet ''CLK-MAINSEL-25MHz'', GpioReset ''CLK-MAINSEL-GPS'',
          StoreClockSource ''internal'', Sleep_ms 100, EnableRefClk True,
          StoreTimeSource ''sfp0'', RegsSetTimeSource ''sfp0'' (Some 25000000)]
          @ concat (replicate 40 [WrGetTimeLockStatus, Sleep_ms 1000])
          @ [WrGetTimeLockStatus]\<rparr>)"
    by (simp add: bench_defs emits_def)
  from timeout [THEN conjunct2]
  have w2': "slept_ms (hw_log (snd (set_sync_source never_locked sfp0_args bench))) = 40100"
    by (simp add: bench_def)
  have "set_sync_source locks_at_third sfp0_args bench =
      update_ref_clock_loop 0 (dboards bench) (Some 25000000) ''sfp0'' ''internal''
        (arg_skip_rfic sfp0_args)
        (emits (concat (replicate 2 [WrGetTimeLockStatus, Sleep_ms 1000]) @ [WrGetTimeLockStatus])
          (bench\<lparr>clock_source := Some ''internal'', time_source := Some ''sfp0'',
             hw_log := hw_log bench
               @ map SetClkSafeState
                   [i \<leftarrow> [0..<length (dboards bench)]. has_set_clk_safe_state (dboards bench ! i)]
               @ [EnableRefClk False, GpioSet ''CLK-MAINSEL-EX_B'', GpioSet ''CLK-MAINSEL-25MHz'',
                  GpioReset ''CLK-MAINSEL-GPS'', StoreClockSource ''internal'', Sleep_ms 100,
                  EnableRefClk True, StoreTimeSource ''sfp0'',
                  RegsSetTimeSource ''sfp0'' (Some 25000000)]\<rparr>))"
    using set_sync_source_sfp0 [OF a' b' c(1) d' e', of locks_at_third, unfolded Let_def]
    by (elim conjE allE [of _ 2])
       (simp add: bench_defs sfp_time_source_images_def locks_at_third_def)
  then have w3: "set_sync_source locks_at_third sfp0_args bench =
     (Inr (), bench\<lparr>time_source := Some ''sfp0'',
        hw_log := [SetClkSafeState 1, EnableRefClk False, GpioSet ''CLK-MAINSEL-EX_B'',
          GpioSet ''CLK-MAINSEL-25MHz'', GpioReset ''CLK-MAINSEL-GPS'',
          StoreClockSource ''internal'', Sleep_ms 100, EnableRefClk True,
          StoreTimeSource ''sfp0'', RegsSetTimeSource ''sfp0'' (Some 25000000),
          WrGetTimeLockStatus, Sleep_ms 1000, WrGetTimeLockStatus, Sleep_ms 1000,
          WrGetTimeLockStatus,
          UpdateRefClockFreq 0 25000000 ''sfp0'' ''internal'' None,
          UpdateRefClockFreq 1 25000000 ''sfp0'' ''internal'' None]\<rparr>)"
    by (simp add: bench_defs sfp0_args_def emits_def emit_def numeral_2_eq_2)
  have w4: "set_sync_source never_locked bad_args bench = (Inl AssertionError, bench)"
    using set_sync_source_sfp0 [OF a'' b'' c(2) d'' e', of never_locked]
    by (simp add: Let_def)
  have w2_fields: "fst (set_sync_source never_locked sfp0_args bench)
       = Inl (RuntimeError ''Failed to lock SFP timebase.'')"
    "time_source (snd (set_sync_source never_locked sfp0_args bench)) = Some ''sfp0''"
    "hw_log (snd (set_sync_source never_locked sfp0_args bench)) =
       [SetClkSafeState 1, EnableRefClk False, GpioSet ''CLK-MAINSEL-EX_B'',
        GpioSet ''CLK-MAINSEL-25MHz'', GpioReset ''CLK-MAINSEL-GPS'',
        StoreClockSource ''internal'', Sleep_ms 100, EnableRefClk True,
        StoreTimeSource ''sfp0'', RegsSetTimeSource ''sfp0'' (Some 25000000)]
       @ concat (replicate 40 [WrGetTimeLockStatus, Sleep_ms 1000]) @ [WrGetTimeLockStatus]"
    unfolding w2 by simp_all
  from w1 w2_fields w2' w3 w4 show ?thesis
    by (intro conjI)
qed

section \<open>The stored pair stays valid\<close>

text \<open>
  Whatever \<^verbatim>\<open>set_sync_source\<close> returns or raises, the object it leaves differs from the
  one it found in the log alone, or in the log and in both source fields, which then hold
  the pair that passed the test against \<open>valid_sync_sources\<close>. The one place where the
  call could stop between the two stores is the division of the reference frequency for the
  debug line; it does not raise once the external frequency is set, which
  \<^verbatim>\<open>_init_ref_clock_and_time\<close> does before anything else. The calls on the register block
  and the port expander are taken to return.
\<close>

lemma clk_safe_loop_frame: "\<exists>l. snd (clk_safe_loop k ds s) = s\<lparr>hw_log := l\<rparr>"
proof (induction ds arbitrary: k s)
  case Nil
  have "s = s\<lparr>hw_log := hw_log s\<rparr>" by simp
  then show ?case by (auto intro: exI [of _ "hw_log s"])
next
  case (Cons d ds)
  from Cons.IH [of "Suc k" s] Cons.IH [of "Suc k" "emit (SetClkSafeState k) s"]
  show ?case by (auto simp: emit_def)
qed

lemma update_ref_clock_loop_frame:
  "\<exists>l. snd (update_ref_clock_loop k ds freq ts cs skip s) = s\<lparr>hw_log := l\<rparr>"
proof (induction ds arbitrary: k s)
  case Nil
  have "s = s\<lparr>hw_log := hw_log s\<rparr>" by simp
  then show ?case by (auto intro: exI [of _ "hw_log s"])
next
  case (Cons d ds)
  have same: "s = s\<lparr>hw_log := hw_log s\<rparr>" by simp
  show ?case
  proof (cases freq)
    case None
    with same show ?thesis by (auto intro: exI [of _ "hw_log s"])
  next
    case (Some f)
    with Cons.IH [of "Suc k" "emit (UpdateRefClockFreq k f ts cs skip) s"]
    show ?thesis by (auto simp: emit_def)
  qed
qed

lemma sfp0_time_lock_frame: "\<exists>l. snd (sfp0_time_lock wr_lock ts s) = s\<lparr>hw_log := l\<rparr>"
proof -
  have same: "s = s\<lparr>hw_log := hw_log s\<rparr>" by simp
  then have "\<exists>l. s = s\<lparr>hw_log := l\<rparr>" by (rule exI)
  then show ?thesis
    by (auto simp: sfp0_time_lock_def emit_def emits_def split: prod.splits)
qed

lemma switch_time_source_frame:
  "\<exists>l. snd (switch_time_source wr_lock cs ts skip s) = s\<lparr>time_source := Some ts, hw_log := l\<rparr>"
proof -
  define s1 where "s1 = emit (StoreTimeSource ts) (s\<lparr>time_source := Some ts\<rparr>)"
  have s1: "s1 = s\<lparr>time_source := Some ts, hw_log := hw_log s @ [StoreTimeSource ts]\<rparr>"
    by (simp add: s1_def emit_def)
  show ?thesis
  proof (cases "get_ref_clock_freq s1")
    case (Inl e)
    then show ?thesis
      by (auto simp: switch_time_source_def Let_def s1_def [symmetric] s1)
  next
    case (Inr f)
    define s2 where "s2 = emit (RegsSetTimeSource ts f) s1"
    define r3 where "r3 = (if ts = ''sfp0'' then sfp0_time_lock wr_lock ts s2 else (Inr (), s2))"
    have s2: "\<exists>l. s2 = s\<lparr>time_source := Some ts, hw_log := l\<rparr>"
      by (simp add: s2_def s1 emit_def) (rule exI, rule refl)
    from sfp0_time_lock_frame [of wr_lock ts s2] s2
    have s3: "\<exists>l. snd r3 = s\<lparr>time_source := Some ts, hw_log := l\<rparr>"
      by (auto simp: r3_def)
    have eq: "switch_time_source wr_lock cs ts skip s =
        (case r3 of (Inl e, s3) \<Rightarrow> (Inl e, s3)
         | (Inr _, s3) \<Rightarrow> update_ref_clock_loop 0 (dboards s3) f ts cs skip s3)"
      by (simp add: switch_time_source_def Let_def s1_def [symmetric] Inr s2_def r3_def)
    from s3 update_ref_clock_loop_frame [of 0 "dboards (snd r3)" f ts cs skip "snd r3"]
    show ?thesis
      unfolding eq by (cases r3; cases "fst r3") auto
  qed
qed

lemma switch_clock_source_frame:
  assumes ext: "ext_clock_freq s \<noteq> None" and cs: "cs \<in> set get_clock_sources"
  shows "(\<exists>l e. switch_clock_source cs s = (Inl e, s\<lparr>hw_log := l\<rparr>)) \<or>
         (\<exists>l. switch_clock_source cs s = (Inr (), s\<lparr>clock_source := Some cs, hw_log := l\<rparr>))"
proof -
  obtain r1 l1 where l1: "clk_safe_loop 0 (dboards s) s = (r1, s\<lparr>hw_log := l1\<rparr>)"
    using clk_safe_loop_frame [of 0 "dboards s" s]
    by (cases "clk_safe_loop 0 (dboards s) s") auto
  show ?thesis
  proof (cases r1)
    case (Inl e)
    with l1 show ?thesis
      by (simp add: switch_clock_source_def) (rule exI, rule refl)
  next
    case (Inr u)
    from ext obtain f where f: "ext_clock_freq s = Some f" by auto
    have "\<exists>g. get_ref_clock_freq (s\<lparr>clock_source := Some cs\<rparr>) = Inr (Some g)"
      using cs f by (auto simp: get_ref_clock_freq_def get_clock_sources_def)
    with l1 Inr show ?thesis
      by (auto simp: switch_clock_source_def Let_def emit_def emits_def get_ref_clock_freq_log)
  qed
qed

lemma apply_sync_source_frame:
  assumes ext: "ext_clock_freq s \<noteq> None" and cs: "cs \<in> set get_clock_sources"
  shows "\<exists>l. snd (apply_sync_source wr_lock cs ts skip s) = s\<lparr>hw_log := l\<rparr> \<or>
             snd (apply_sync_source wr_lock cs ts skip s) =
               s\<lparr>clock_source := Some cs, time_source := Some ts, hw_log := l\<rparr>"
  using switch_clock_source_frame [OF ext cs]
proof (elim disjE exE)
  fix l e assume "switch_clock_source cs s = (Inl e, s\<lparr>hw_log := l\<rparr>)"
  then show ?thesis by (auto simp: apply_sync_source_def)
next
  fix l assume sw: "switch_clock_source cs s = (Inr (), s\<lparr>clock_source := Some cs, hw_log := l\<rparr>)"
  from switch_time_source_frame [of wr_lock cs ts skip "s\<lparr>clock_source := Some cs, hw_log := l\<rparr>"]
  show ?thesis by (auto simp: apply_sync_source_def sw)
qed

lemma set_sync_source_frame:
  assumes ext: "ext_clock_freq s \<noteq> None"
  shows "(\<exists>l. snd (set_sync_source wr_lock args s) = s\<lparr>hw_log := l\<rparr>) \<or>
         (\<exists>cs ts l. (cs, ts) \<in> valid_sync_sources \<and>
            args_get (arg_clock_source args) (clock_source s) = Some cs \<and>
            args_get (arg_time_source args) (time_source s) = Some ts \<and>
            snd (set_sync_source wr_lock args s) =
              s\<lparr>clock_source := Some cs, time_source := Some ts, hw_log := l\<rparr>)"
proof -
  have same: "\<exists>l. s = s\<lparr>hw_log := l\<rparr>"
    by (rule exI [of _ "hw_log s"]) simp
  show ?thesis
    using same apply_sync_source_frame [OF ext]
    by (simp add: set_sync_source_def split: option.splits) blast
qed


lemma sync_pair_valid_iff:
  "sync_pair_valid s \<longleftrightarrow>
     (\<forall>cs ts. clock_source s = Some cs \<longrightarrow> time_source s = Some ts \<longrightarrow>
        (cs, ts) \<in> valid_sync_sources)"
  by (auto simp: sync_pair_valid_def split: option.splits)

lemma set_sync_source_keeps:
  assumes "ext_clock_freq s \<noteq> None" and "sync_pair_valid s"
  shows "ext_clock_freq (snd (set_sync_source wr_lock args s)) \<noteq> None \<and>
         sync_pair_valid (snd (set_sync_source wr_lock args s))"
  using set_sync_source_frame [OF assms(1), of wr_lock args] assms
  by (auto simp: sync_pair_valid_iff)

lemma set_clock_source_keeps:
  assumes "ext_clock_freq s \<noteq> None" and "sync_pair_valid s"
  shows "ext_clock_freq (snd (set_clock_source wr_lock c s)) \<noteq> None \<and>
         sync_pair_valid (snd (set_clock_source wr_lock c s))"
  using assms set_sync_source_keeps [OF assms]
  by (simp add: set_clock_source_def split: option.splits)

lemma set_time_source_keeps:
  assumes "ext_clock_freq s \<noteq> None" and "sync_pair_valid s"
  shows "ext_clock_freq (snd (set_time_source wr_lock t s)) \<noteq> None \<and>
         sync_pair_valid (snd (set_time_source wr_lock t s))"
  using assms set_sync_source_keeps [OF assms]
  by (simp add: set_time_source_def split: option.splits)

lemma set_ref_clock_freq_keeps:
  assumes "ext_clock_freq s \<noteq> None" and "sync_pair_valid s"
  shows "ext_clock_freq (snd (set_ref_clock_freq wr_lock f s)) \<noteq> None \<and>
         sync_pair_valid (snd (set_ref_clock_freq wr_lock f s))"
proof -
  let ?s1 = "s\<lparr>ext_clock_freq := Some f\<rparr>"
  have s1: "ext_clock_freq ?s1 \<noteq> None" "sync_pair_valid ?s1"
    using assms(2) by (simp_all add: sync_pair_valid_iff)
  have "snd (set_ref_clock_freq wr_lock f s) = s \<or>
        snd (set_ref_clock_freq wr_lock f s) = ?s1 \<or>
        (\<exists>t. snd (set_ref_clock_freq wr_lock f s) = snd (set_time_source wr_lock t ?s1))"
    by (auto simp: set_ref_clock_freq_def Let_def get_time_source_def get_clock_source_def
             split: option.splits)
  then consider (same) "snd (set_ref_clock_freq wr_lock f s) = s"
    | (stored) "snd (set_ref_clock_freq wr_lock f s) = ?s1"
    | (reapplied) t where "snd (set_ref_clock_freq wr_lock f s) = snd (set_time_source wr_lock t ?s1)"
    by blast
  then show ?thesis
  proof cases
    case same
    with assms show ?thesis by simp
  next
    case stored
    with s1 show ?thesis by simp
  next
    case (reapplied t)
    with set_time_source_keeps [OF s1, of wr_lock t] show ?thesis by simp
  qed
qed

lemma run_keeps:
  assumes "ext_clock_freq s \<noteq> None" and "sync_pair_valid s"
  shows "ext_clock_freq (run wr_lock operation s) \<noteq> None \<and>
         sync_pair_valid (run wr_lock operation s)"
proof (cases operation)
  case (SetSyncSource args)
  with set_sync_source_keeps [OF assms] show ?thesis by simp
next
  case (SetClockSource c)
  with set_clock_source_keeps [OF assms] show ?thesis by simp
next
  case (SetTimeSource t)
  with set_time_source_keeps [OF assms] show ?thesis by simp
next
  case (SetRefClockFreq f)
  with set_ref_clock_freq_keeps [OF assms] show ?thesis by simp
next
  case (RequestXportOp d a x)
  with assms show ?thesis
    by (simp add: request_xport_def split: sum.splits)
next
  case (CommitXportOp info)
  with assms show ?thesis
    by (simp add: commit_xport_def Let_def sync_pair_valid_iff)
next
  case Deinit
  with assms show ?thesis
    by (simp add: deinit_def sync_pair_valid_iff)
qed

lemma init_ref_clock_and_time_keeps:
  assumes "clock_source s = None" and "time_source s = None"
  shows "ext_clock_freq (snd (init_ref_clock_and_time wr_lock f default_args s)) \<noteq> None \<and>
         sync_pair_valid (snd (init_ref_clock_and_time wr_lock f default_args s))"
proof -
  define s1 where "s1 = s\<lparr>ext_clock_freq := Some (case f of None \<Rightarrow> 10000000 | Some g \<Rightarrow> g)\<rparr>"
  have "ext_clock_freq s1 \<noteq> None" and "sync_pair_valid s1"
    using assms by (simp_all add: s1_def sync_pair_valid_iff)
  from set_sync_source_keeps [OF this] show ?thesis
    by (simp add: init_ref_clock_and_time_def Let_def s1_def [symmetric])
       (simp add: s1_def sync_pair_valid_iff valid_sync_sources_def)
qed

lemma initialised_keeps:
  "initialised s \<Longrightarrow> ext_clock_freq s \<noteq> None \<and> sync_pair_valid s"
proof (induction rule: initialised.induct)
  case (boot s wr_lock f default_args)
  then show ?case by (rule init_ref_clock_and_time_keeps)
next
  case (call s wr_lock operation)
  then show ?case by (simp add: run_keeps)
qed

lemma set_clock_source_pair_valid:
  "c \<in> set get_clock_sources \<Longrightarrow> set_clock_source_pair c t \<in> valid_sync_sources"
  by (auto simp: set_clock_source_pair_def get_clock_sources_def valid_sync_sources_def)

lemma set_time_source_pair_valid:
  "t \<in> set get_time_sources \<Longrightarrow> set_time_source_pair c t \<in> valid_sync_sources"
  by (auto simp: set_time_source_pair_def get_time_sources_def valid_sync_sources_def)

lemma set_clock_source_unsupported:
  "c \<notin> set get_clock_sources \<Longrightarrow> set_clock_source wr_lock c s = (Inl AssertionError, s)"
  by (auto simp: set_clock_source_def set_clock_source_pair_def source_args_def
        set_sync_source_def args_get_def get_clock_sources_def split: option.splits)

lemma set_time_source_unsupported:
  "t \<notin> set get_time_sources \<Longrightarrow> set_time_source wr_lock t s = (Inl AssertionError, s)"
  by (auto simp: set_time_source_def set_time_source_pair_def source_args_def
        set_sync_source_def args_get_def get_time_sources_def split: option.splits)


lemma clk_safe_loop_raises:
  "\<exists>d\<in>set ds. has_set_clk_safe_state d \<and> set_clk_safe_state_raises d \<Longrightarrow>
   \<exists>e l. clk_safe_loop k ds s = (Inl e, s\<lparr>hw_log := l\<rparr>)"
proof (induction ds arbitrary: k s)
  case Nil
  then show ?case by simp
next
  case (Cons d ds)
  show ?case
  proof (cases "has_set_clk_safe_state d \<and> set_clk_safe_state_raises d")
    case True
    then show ?thesis by (simp add: emit_def) (rule exI, rule refl)
  next
    case False
    with Cons.prems have later:
        "\<exists>d\<in>set ds. has_set_clk_safe_state d \<and> set_clk_safe_state_raises d"
      by auto
    from Cons.IH [OF later, of "Suc k" s]
         Cons.IH [OF later, of "Suc k" "emit (SetClkSafeState k) s"] False
    show ?thesis by (auto simp: emit_def)
  qed
qed

lemma set_sync_source_applies:
  assumes cs: "args_get (arg_clock_source args) (clock_source s) = Some cs"
    and ts: "args_get (arg_time_source args) (time_source s) = Some ts"
    and valid: "(cs, ts) \<in> valid_sync_sources"
    and new: "\<not> (clock_source s = Some cs \<and> time_source s = Some ts)"
  shows "set_sync_source wr_lock args s = apply_sync_source wr_lock cs ts (arg_skip_rfic args) s"
proof -
  from valid have "cs \<in> set get_clock_sources" "ts \<in> set get_time_sources"
    by (auto simp: valid_sync_sources_def get_clock_sources_def get_time_sources_def)
  with cs ts valid new show ?thesis
    by (auto simp: set_sync_source_def)
qed

lemma set_sync_source_stores:
  assumes cs: "args_get (arg_clock_source args) (clock_source s) = Some cs"
    and ts: "args_get (arg_time_source args) (time_source s) = Some ts"
    and valid: "(cs, ts) \<in> valid_sync_sources"
    and new: "\<not> (clock_source s = Some cs \<and> time_source s = Some ts)"
    and ext: "ext_clock_freq s \<noteq> None"
    and safe: "\<forall>d\<in>set (dboards s). has_set_clk_safe_state d \<longrightarrow> \<not> set_clk_safe_state_raises d"
  shows "clock_source (snd (set_sync_source wr_lock args s)) = Some cs \<and>
         time_source (snd (set_sync_source wr_lock args s)) = Some ts"
proof -
  from ext obtain g where g: "ext_clock_freq s = Some g" by auto
  from valid have "cs \<in> set get_clock_sources"
    by (auto simp: valid_sync_sources_def get_clock_sources_def)
  with g obtain f where f: "get_ref_clock_freq (s\<lparr>clock_source := Some cs\<rparr>) = Inr (Some f)"
    by (auto simp: get_ref_clock_freq_def get_clock_sources_def)
  let ?s1 = "s\<lparr>clock_source := Some cs,
      hw_log := hw_log s @ map SetClkSafeState (safe_slots 0 (dboards s))
        @ [EnableRefClk False] @ set_clk_mainsel cs
        @ [StoreClockSource cs, Sleep_ms 100, EnableRefClk True]\<rparr>"
  have p1: "switch_clock_source cs s = (Inr (), ?s1)"
    by (rule switch_clock_source_ok [OF safe f])
  have eq: "set_sync_source wr_lock args s =
      switch_time_source wr_lock cs ts (arg_skip_rfic args) ?s1"
    unfolding set_sync_source_applies [OF cs ts valid new] apply_sync_source_def p1 by simp
  from switch_time_source_frame [of wr_lock cs ts "arg_skip_rfic args" ?s1]
  obtain l where "snd (switch_time_source wr_lock cs ts (arg_skip_rfic args) ?s1) =
      ?s1\<lparr>time_source := Some ts, hw_log := l\<rparr>"
    by blast
  then show ?thesis
    unfolding eq by simp
qed

lemma set_sync_source_safe_state_raises:
  assumes cs: "args_get (arg_clock_source args) (clock_source s) = Some cs"
    and ts: "args_get (arg_time_source args) (time_source s) = Some ts"
    and valid: "(cs, ts) \<in> valid_sync_sources"
    and new: "\<not> (clock_source s = Some cs \<and> time_source s = Some ts)"
    and unsafe: "\<exists>d\<in>set (dboards s). has_set_clk_safe_state d \<and> set_clk_safe_state_raises d"
  shows "fst (set_sync_source wr_lock args s) \<noteq> Inr () \<and>
         clock_source (snd (set_sync_source wr_lock args s)) = clock_source s \<and>
         time_source (snd (set_sync_source wr_lock args s)) = time_source s"
proof -
  from clk_safe_loop_raises [OF unsafe, of 0 s] obtain e l where
    "clk_safe_loop 0 (dboards s) s = (Inl e, s\<lparr>hw_log := l\<rparr>)"
    by blast
  then have "apply_sync_source wr_lock cs ts (arg_skip_rfic args) s = (Inl e, s\<lparr>hw_log := l\<rparr>)"
    by (simp add: apply_sync_source_def switch_clock_source_def)
  then show ?thesis
    unfolding set_sync_source_applies [OF cs ts valid new] by simp
qed

lemma set_clock_source_repairs:
  assumes "c \<in> set get_clock_sources" and "time_source s = Some t"
  shows "set_clock_source wr_lock c s =
           set_sync_source wr_lock
             \<lparr>arg_clock_source = Some c,
              arg_time_source = Some (if (c, t) \<in> valid_sync_sources then t else c),
              arg_skip_rfic = None\<rparr> s \<and>
         (c, if (c, t) \<in> valid_sync_sources then t else c) \<in> valid_sync_sources"
  using assms
  by (auto simp: set_clock_source_def set_clock_source_pair_def source_args_def
        get_clock_sources_def valid_sync_sources_def)

lemma set_time_source_repairs:
  assumes "t \<in> set get_time_sources" and "clock_source s = Some c"
  shows "set_time_source wr_lock t s =
           set_sync_source wr_lock
             \<lparr>arg_clock_source =
                Some (if (c, t) \<in> valid_sync_sources then c
                      else if t = ''sfp0'' then ''internal'' else t),
              arg_time_source = Some t, arg_skip_rfic = None\<rparr> s \<and>
         (if (c, t) \<in> valid_sync_sources then c
          else if t = ''sfp0'' then ''internal'' else t, t) \<in> valid_sync_sources"
  using assms
  by (auto simp: set_time_source_def set_time_source_pair_def source_args_def
        get_time_sources_def valid_sync_sources_def)

text \<open>
  C9, as stated, fails in its last part: \<^verbatim>\<open>set_clock_source\<close> repairs the companion only
  for the three clock sources it knows. Asked for \<^verbatim>\<open>sfp0\<close> as a clock source, it hands
  the pair of \<^verbatim>\<open>sfp0\<close> with the stored time source on as it is, a pair outside
  \<open>valid_sync_sources\<close>, and it is \<^verbatim>\<open>set_sync_source\<close> that refuses it.
\<close>

theorem set_clock_source_unsupported_counterexample:
  "time_source bench = Some ''internal'' \<and>
   set_clock_source_pair ''sfp0'' ''internal'' = (''sfp0'', ''internal'') \<and>
   (''sfp0'', ''internal'') \<notin> valid_sync_sources \<and>
   set_clock_source never_locked ''sfp0'' bench = (Inl AssertionError, bench)"
  by (simp add: set_clock_source_def set_clock_source_pair_def source_args_def
        set_sync_source_def bench_defs)

text \<open>
  C9, amended. On an initialised device the stored pair, when both fields are set, is in
  \<open>valid_sync_sources\<close>, and every call keeps it so, whether it returns or raises.
  \<^item> \<^verbatim>\<open>set_sync_source\<close> either leaves both fields as they were or leaves them holding the
    resolved pair, which is then in \<open>valid_sync_sources\<close>.
  \<^item> When it resolves a new pair of \<open>valid_sync_sources\<close> and no daughterboard raises on
    the way to its safe state, both fields hold that pair afterwards, whatever the rest of
    the call does: an error of the image type, of the lock poll or of a daughterboard update
    rolls nothing back. When a daughterboard does raise on the way to its safe state, the
    call fails with both fields as they were.
  \<^item> \<^verbatim>\<open>set_clock_source\<close>, asked for a supported name, is \<^verbatim>\<open>set_sync_source\<close> on that
    name and the stored time source, or, when these two are not in \<open>valid_sync_sources\<close>,
    on that name and the time source of the same name; \<^verbatim>\<open>set_time_source\<close>, asked for a
    supported name, is \<^verbatim>\<open>set_sync_source\<close> on the stored clock source and that name, or,
    when these two are not in \<open>valid_sync_sources\<close>, on the clock source of the same name,
    \<^verbatim>\<open>internal\<close> for \<^verbatim>\<open>sfp0\<close>. The pair passed on is in \<open>valid_sync_sources\<close>.
  \<^item> Asked for any other name, they are refused by the assertion of \<^verbatim>\<open>set_sync_source\<close>
    and change nothing.
\<close>

theorem sync_pair_invariant:
  assumes init: "initialised s"
  shows "sync_pair_valid s \<and>
     sync_pair_valid (run wr_lock operation s) \<and>
     (clock_source (snd (set_sync_source wr_lock args s)) = clock_source s \<and>
      time_source (snd (set_sync_source wr_lock args s)) = time_source s \<or>
      (\<exists>cs ts. (cs, ts) \<in> valid_sync_sources \<and>
         args_get (arg_clock_source args) (clock_source s) = Some cs \<and>
         args_get (arg_time_source args) (time_source s) = Some ts \<and>
         clock_source (snd (set_sync_source wr_lock args s)) = Some cs \<and>
         time_source (snd (set_sync_source wr_lock args s)) = Some ts)) \<and>
     (\<forall>cs ts.
        args_get (arg_clock_source args) (clock_source s) = Some cs \<and>
        args_get (arg_time_source args) (time_source s) = Some ts \<and>
        (cs, ts) \<in> valid_sync_sources \<and>
        \<not> (clock_source s = Some cs \<and> time_source s = Some ts) \<longrightarrow>
        ((\<forall>d\<in>set (dboards s). has_set_clk_safe_state d \<longrightarrow> \<not> set_clk_safe_state_raises d) \<longrightarrow>
           clock_source (snd (set_sync_source wr_lock args s)) = Some cs \<and>
           time_source (snd (set_sync_source wr_lock args s)) = Some ts) \<and>
        ((\<exists>d\<in>set (dboards s). has_set_clk_safe_state d \<and> set_clk_safe_state_raises d) \<longrightarrow>
           fst (set_sync_source wr_lock args s) \<noteq> Inr () \<and>
           clock_source (snd (set_sync_source wr_lock args s)) = clock_source s \<and>
           time_source (snd (set_sync_source wr_lock args s)) = time_source s)) \<and>
     (\<forall>c t. c \<in> set get_clock_sources \<and> time_source s = Some t \<longrightarrow>
        set_clock_source wr_lock c s =
          set_sync_source wr_lock
            \<lparr>arg_clock_source = Some c,
             arg_time_source = Some (if (c, t) \<in> valid_sync_sources then t else c),
             arg_skip_rfic = None\<rparr> s \<and>
        (c, if (c, t) \<in> valid_sync_sources then t else c) \<in> valid_sync_sources) \<and>
     (\<forall>c t. t \<in> set get_time_sources \<and> clock_source s = Some c \<longrightarrow>
        set_time_source wr_lock t s =
          set_sync_source wr_lock
            \<lparr>arg_clock_source =
               Some (if (c, t) \<in> valid_sync_sources then c
                     else if t = ''sfp0'' then ''internal'' else t),
             arg_time_source = Some t, arg_skip_rfic = None\<rparr> s \<and>
        (if (c, t) \<in> valid_sync_sources then c
         else if t = ''sfp0'' then ''internal'' else t, t) \<in> valid_sync_sources) \<and>
     (\<forall>c t. c \<in> set get_clock_sources \<longrightarrow> set_clock_source_pair c t \<in> valid_sync_sources) \<and>
     (\<forall>c t. t \<in> set get_time_sources \<longrightarrow> set_time_source_pair c t \<in> valid_sync_sources) \<and>
     (\<forall>c. c \<notin> set get_clock_sources \<longrightarrow>
        set_clock_source wr_lock c s = (Inl AssertionError, s)) \<and>
     (\<forall>t. t \<notin> set get_time_sources \<longrightarrow>
        set_time_source wr_lock t s = (Inl AssertionError, s))"
proof -
  from initialised_keeps [OF init]
  have ext: "ext_clock_freq s \<noteq> None" and valid: "sync_pair_valid s" by simp_all
  have stored: "clock_source (snd (set_sync_source wr_lock args s)) = clock_source s \<and>
      time_source (snd (set_sync_source wr_lock args s)) = time_source s \<or>
      (\<exists>cs ts. (cs, ts) \<in> valid_sync_sources \<and>
         args_get (arg_clock_source args) (clock_source s) = Some cs \<and>
         args_get (arg_time_source args) (time_source s) = Some ts \<and>
         clock_source (snd (set_sync_source wr_lock args s)) = Some cs \<and>
         time_source (snd (set_sync_source wr_lock args s)) = Some ts)"
    using set_sync_source_frame [OF ext, of wr_lock args] by auto
  have late: "\<forall>cs ts.
        args_get (arg_clock_source args) (clock_source s) = Some cs \<and>
        args_get (arg_time_source args) (time_source s) = Some ts \<and>
        (cs, ts) \<in> valid_sync_sources \<and>
        \<not> (clock_source s = Some cs \<and> time_source s = Some ts) \<longrightarrow>
        ((\<forall>d\<in>set (dboards s). has_set_clk_safe_state d \<longrightarrow> \<not> set_clk_safe_state_raises d) \<longrightarrow>
           clock_source (snd (set_sync_source wr_lock args s)) = Some cs \<and>
           time_source (snd (set_sync_source wr_lock args s)) = Some ts) \<and>
        ((\<exists>d\<in>set (dboards s). has_set_clk_safe_state d \<and> set_clk_safe_state_raises d) \<longrightarrow>
           fst (set_sync_source wr_lock args s) \<noteq> Inr () \<and>
           clock_source (snd (set_sync_source wr_lock args s)) = clock_source s \<and>
           time_source (snd (set_sync_source wr_lock args s)) = time_source s)"
    using set_sync_source_stores [where wr_lock = wr_lock and args = args and s = s, OF _ _ _ _ ext]
      set_sync_source_safe_state_raises [where wr_lock = wr_lock and args = args and s = s]
    by blast
  have clock: "\<forall>c t. c \<in> set get_clock_sources \<and> time_source s = Some t \<longrightarrow>
        set_clock_source wr_lock c s =
          set_sync_source wr_lock
            \<lparr>arg_clock_source = Some c,
             arg_time_source = Some (if (c, t) \<in> valid_sync_sources then t else c),
             arg_skip_rfic = None\<rparr> s \<and>
        (c, if (c, t) \<in> valid_sync_sources then t else c) \<in> valid_sync_sources"
    using set_clock_source_repairs [where wr_lock = wr_lock and s = s] by blast
  have time: "\<forall>c t. t \<in> set get_time_sources \<and> clock_source s = Some c \<longrightarrow>
        set_time_source wr_lock t s =
          set_sync_source wr_lock
            \<lparr>arg_clock_source =
               Some (if (c, t) \<in> valid_sync_sources then c
                     else if t = ''sfp0'' then ''internal'' else t),
             arg_time_source = Some t, arg_skip_rfic = None\<rparr> s \<and>
        (if (c, t) \<in> valid_sync_sources then c
         else if t = ''sfp0'' then ''internal'' else t, t) \<in> valid_sync_sources"
    using set_time_source_repairs [where wr_lock = wr_lock and s = s] by blast
  have pairs: "\<forall>c t. c \<in> set get_clock_sources \<longrightarrow> set_clock_source_pair c t \<in> valid_sync_sources"
    "\<forall>c t. t \<in> set get_time_sources \<longrightarrow> set_time_source_pair c t \<in> valid_sync_sources"
    using set_clock_source_pair_valid set_time_source_pair_valid by blast+
  have refused: "\<forall>c. c \<notin> set get_clock_sources \<longrightarrow>
        set_clock_source wr_lock c s = (Inl AssertionError, s)"
    "\<forall>t. t \<notin> set get_time_sources \<longrightarrow>
        set_time_source wr_lock t s = (Inl AssertionError, s)"
    using set_clock_source_unsupported set_time_source_unsupported by blast+
  from valid run_keeps [OF ext valid, THEN conjunct2, of wr_lock operation] stored late clock time
    pairs refused
  show ?thesis by (intro conjI)
qed


theorem sync_pair_invariant_witness:
  "clock_source faulty_booted = Some ''internal'' \<and>
   time_source faulty_booted = Some ''internal'' \<and>
   sync_pair_valid faulty_booted \<and>
   sync_pair_valid (run never_locked (SetClockSource ''gpsdo'') faulty_booted) \<and>
   fst (set_sync_source never_locked ext_args faulty_booted) = Inl (DboardError 0) \<and>
   clock_source (snd (set_sync_source never_locked ext_args faulty_booted)) = Some ''external'' \<and>
   time_source (snd (set_sync_source never_locked ext_args faulty_booted)) = Some ''external'' \<and>
   set_clock_source never_locked ''gpsdo'' faulty_booted =
     set_sync_source never_locked
       \<lparr>arg_clock_source = Some ''gpsdo'', arg_time_source = Some ''gpsdo'',
        arg_skip_rfic = None\<rparr> faulty_booted \<and>
   set_time_source never_locked ''external'' faulty_booted =
     set_sync_source never_locked
       \<lparr>arg_clock_source = Some ''external'', arg_time_source = Some ''external'',
        arg_skip_rfic = None\<rparr> faulty_booted"
proof -
  have init: "initialised faulty_booted"
    unfolding faulty_booted_def by (rule initialised.boot) (simp_all add: fresh_def bench_def)
  have b: "clock_source faulty_booted = Some ''internal''"
    "time_source faulty_booted = Some ''internal''"
    "dboards faulty_booted = [faulty_board]"
    by (simp_all add: faulty_booted_def fresh_def faulty_board_def init_ref_clock_and_time_def
          sync_defs bench_defs)
  note inv = sync_pair_invariant [OF init, of never_locked "SetClockSource ''gpsdo''" ext_args]
  note v1 = inv [THEN conjunct1]
  note v2 = inv [THEN conjunct2, THEN conjunct1]
  note late = inv [THEN conjunct2, THEN conjunct2, THEN conjunct2, THEN conjunct1]
  note clock = inv [THEN conjunct2, THEN conjunct2, THEN conjunct2, THEN conjunct2,
      THEN conjunct1]
  note time = inv [THEN conjunct2, THEN conjunct2, THEN conjunct2, THEN conjunct2,
      THEN conjunct2, THEN conjunct1]
  have new: "args_get (arg_clock_source ext_args) (clock_source faulty_booted) = Some ''external'' \<and>
      args_get (arg_time_source ext_args) (time_source faulty_booted) = Some ''external'' \<and>
      (''external'', ''external'') \<in> valid_sync_sources \<and>
      \<not> (clock_source faulty_booted = Some ''external'' \<and>
         time_source faulty_booted = Some ''external'')"
    by (simp add: b bench_defs)
  have safe: "\<forall>d\<in>set (dboards faulty_booted).
      has_set_clk_safe_state d \<longrightarrow> \<not> set_clk_safe_state_raises d"
    by (simp add: b faulty_board_def)
  note stored = late [THEN spec, THEN spec, THEN mp, OF new, THEN conjunct1, THEN mp, OF safe]
  have raised: "fst (set_sync_source never_locked ext_args faulty_booted) = Inl (DboardError 0)"
    by (simp add: faulty_booted_def fresh_def faulty_board_def init_ref_clock_and_time_def
          sync_defs bench_defs)
  have sup: "''gpsdo'' \<in> set get_clock_sources \<and> time_source faulty_booted = Some ''internal''"
    "''external'' \<in> set get_time_sources \<and> clock_source faulty_booted = Some ''internal''"
    by (simp_all add: b bench_defs)
  from clock [THEN spec, THEN spec, THEN mp, OF sup(1), THEN conjunct1]
  have c: "set_clock_source never_locked ''gpsdo'' faulty_booted =
     set_sync_source never_locked
       \<lparr>arg_clock_source = Some ''gpsdo'', arg_time_source = Some ''gpsdo'',
        arg_skip_rfic = None\<rparr> faulty_booted"
    by (simp add: valid_sync_sources_def)
  from time [THEN spec, THEN spec, THEN mp, OF sup(2), THEN conjunct1]
  have t: "set_time_source never_locked ''external'' faulty_booted =
     set_sync_source never_locked
       \<lparr>arg_clock_source = Some ''external'', arg_time_source = Some ''external'',
        arg_skip_rfic = None\<rparr> faulty_booted"
    by (simp add: valid_sync_sources_def)
  from b(1,2) v1 v2 raised stored [THEN conjunct1] stored [THEN conjunct2] c t
  show ?thesis by (intro conjI)
qed

section \<open>The monitor thread and the tear-down\<close>

text \<open>
  The flag is set by \<^verbatim>\<open>tear_down\<close> and never cleared: the reads of the monitor thread
  return \<open>False\<close> up to some read and \<open>True\<close> from then on. A turn of the loop makes
  three reads when none of them finds the flag set: one at the head of the loop and two in
  \<^verbatim>\<open>wait_for\<close>. So the first read that finds the flag set is read \<open>3 * j + r\<close>, in turn
  \<open>j\<close>, and \<open>r\<close> tells where in the turn.
\<close>

lemma sampling_cycle_reads: "ReadTearDown b \<notin> set (sampling_cycle g r)"
  by (simp add: sampling_cycle_def)

lemma monitor_status_exit:
  assumes r: "r < 3"
    and flag: "\<forall>i. flag (k + i) = (3 * j + r \<le> i)"
  shows "\<exists>before after.
      (\<forall>fuel>j. monitor_status fuel flag gps ref k c = Some (before @ after)) \<and>
      ReadTearDown True \<notin> set before \<and>
      (before = [] \<or> last before = ReadTearDown False) \<and>
      (after = [ReadTearDown True] \<or>
       (\<exists>c'. after = sampling_cycle (gps c') (ref c') @ [ReadTearDown True]) \<or>
       after = [Wait_ms N3XX_MONITOR_THREAD_INTERVAL_ms, ReadTearDown True])"
  using flag
proof (induction j arbitrary: k c)
  case 0
  from 0 [THEN spec, of 0] have f0: "flag k = (r = 0)" by simp
  from 0 [THEN spec, of 1] have f1: "flag (Suc k) = (r \<le> 1)" by simp
  from 0 [THEN spec, of 2] have f2: "flag (Suc (Suc k)) = (r \<le> 2)" by simp
  from r consider (head) "r = 0" | (first) "r = 1" | (second) "r = 2"
    by linarith
  then show ?case
  proof cases
    case head
    have "\<forall>fuel>0. monitor_status fuel flag gps ref k c = Some ([] @ [ReadTearDown True])"
    proof (intro allI impI)
      fix fuel :: nat assume "0 < fuel"
      then obtain n where "fuel = Suc n" by (cases fuel) auto
      with f0 head show "monitor_status fuel flag gps ref k c = Some ([] @ [ReadTearDown True])"
        by simp
    qed
    then show ?thesis by (intro exI [of _ "[]"] exI [of _ "[ReadTearDown True]"]) simp
  next
    case first
    let ?after = "sampling_cycle (gps c) (ref c) @ [ReadTearDown True]"
    have "\<forall>fuel>0. monitor_status fuel flag gps ref k c = Some ([ReadTearDown False] @ ?after)"
    proof (intro allI impI)
      fix fuel :: nat assume "0 < fuel"
      then obtain n where "fuel = Suc n" by (cases fuel) auto
      with f0 f1 first
      show "monitor_status fuel flag gps ref k c = Some ([ReadTearDown False] @ ?after)"
        by (simp add: wait_for_def)
    qed
    then show ?thesis
      by (intro exI [of _ "[ReadTearDown False]"] exI [of _ ?after]) auto
  next
    case second
    let ?before = "ReadTearDown False # sampling_cycle (gps c) (ref c) @ [ReadTearDown False]"
    let ?after = "[Wait_ms N3XX_MONITOR_THREAD_INTERVAL_ms, ReadTearDown True]"
    have "\<forall>fuel>0. monitor_status fuel flag gps ref k c = Some (?before @ ?after)"
    proof (intro allI impI)
      fix fuel :: nat assume "0 < fuel"
      then obtain n where "fuel = Suc n" by (cases fuel) auto
      with f0 f1 f2 second
      show "monitor_status fuel flag gps ref k c = Some (?before @ ?after)"
        by (simp add: wait_for_def)
    qed
    then show ?thesis
      by (intro exI [of _ ?before] exI [of _ ?after]) (simp add: sampling_cycle_reads)
  qed
next
  case (Suc j)
  from Suc.prems [THEN spec, of 0] have f0: "\<not> flag k" by simp
  from Suc.prems [THEN spec, of 1] have f1: "\<not> flag (Suc k)" by simp
  from Suc.prems [THEN spec, of 2] have f2: "\<not> flag (Suc (Suc k))" by simp
  have later: "\<forall>i. flag (Suc (Suc (Suc k)) + i) = (3 * j + r \<le> i)"
  proof
    fix i
    from Suc.prems [THEN spec, of "3 + i"] show "flag (Suc (Suc (Suc k)) + i) = (3 * j + r \<le> i)"
      by (simp add: numeral_3_eq_3)
  qed
  from Suc.IH [OF later, of "Suc c"] obtain before after where
    run: "\<forall>fuel>j. monitor_status fuel flag gps ref (Suc (Suc (Suc k))) (Suc c) =
            Some (before @ after)"
    and before: "ReadTearDown True \<notin> set before"
      "before = [] \<or> last before = ReadTearDown False"
    and after: "after = [ReadTearDown True] \<or>
       (\<exists>c'. after = sampling_cycle (gps c') (ref c') @ [ReadTearDown True]) \<or>
       after = [Wait_ms N3XX_MONITOR_THREAD_INTERVAL_ms, ReadTearDown True]"
    by blast
  let ?turn = "ReadTearDown False # sampling_cycle (gps c) (ref c)
      @ [ReadTearDown False, Wait_ms N3XX_MONITOR_THREAD_INTERVAL_ms, ReadTearDown False]"
  have "\<forall>fuel>Suc j. monitor_status fuel flag gps ref k c = Some ((?turn @ before) @ after)"
  proof (intro allI impI)
    fix fuel :: nat assume "Suc j < fuel"
    then obtain n where n: "fuel = Suc n" "j < n" by (cases fuel) auto
    with run have "monitor_status n flag gps ref (Suc (Suc (Suc k))) (Suc c) = Some (before @ after)"
      by simp
    with f0 f1 f2 n(1)
    show "monitor_status fuel flag gps ref k c = Some ((?turn @ before) @ after)"
      by (simp add: wait_for_def)
  qed
  moreover from before(1) have "ReadTearDown True \<notin> set (?turn @ before)"
    by (simp add: sampling_cycle_reads)
  moreover from before(2) have "?turn @ before = [] \<or> last (?turn @ before) = ReadTearDown False"
    by auto
  ultimately show ?case
    using after by blast
qed

text \<open>
  C10. Let the flag be set so that read \<open>k0\<close> of the monitor thread is the first to find
  it set. Then the loop of \<^verbatim>\<open>_monitor_status\<close> ends, in turn \<open>k0 div 3\<close>, and its log
  splits in two. The first part is what the thread did up to its last read that found the
  flag not set. The second part is what it did from there on, with the flag set at some
  moment before its end: nothing but the read that finds the flag set, or one sampling cycle
  and that read, or the wait on the condition and that read. So there is at most one more
  sampling cycle, and at most one wait of \<^verbatim>\<open>N3XX_MONITOR_THREAD_INTERVAL\<close>.

  \<^verbatim>\<open>tear_down\<close> sets the flag and returns in every case. On an initialised device it
  joins the monitor thread with a timeout of three intervals and, when the thread is alive
  after that, writes an error to the log; then it removes the overlays that are active.
\<close>

theorem monitor_stops_after_tear_down:
  assumes flag: "\<forall>k. flag k = (k0 \<le> k)"
  shows "(\<exists>before after.
      (\<forall>fuel>k0 div 3. monitor_status fuel flag gps ref 0 0 = Some (before @ after)) \<and>
      ReadTearDown True \<notin> set before \<and>
      (before = [] \<or> last before = ReadTearDown False) \<and>
      (after = [ReadTearDown True] \<or>
       (\<exists>c. after = sampling_cycle (gps c) (ref c) @ [ReadTearDown True]) \<or>
       after = [Wait_ms N3XX_MONITOR_THREAD_INTERVAL_ms, ReadTearDown True]) \<and>
      sampling_cycles after \<le> 1 \<and>
      waited_ms after \<le> N3XX_MONITOR_THREAD_INTERVAL_ms) \<and>
    tear_down is_alive active_overlays s =
      (Inr (), s\<lparr>tear_down_flag := True,
                 hw_log := hw_log s
                   @ (if device_initialized s then
                        Join_ms (3 * N3XX_MONITOR_THREAD_INTERVAL_ms)
                        # (if is_alive then
                             [LogError ''Could not terminate monitor thread! This could result in resource leaks.'']
                           else [])
                      else [])
                   @ map RmOverlay active_overlays\<rparr>)"
proof -
  have r: "k0 mod 3 < 3" by simp
  from flag have "\<forall>i. flag (0 + i) = (3 * (k0 div 3) + k0 mod 3 \<le> i)" by simp
  from monitor_status_exit [OF r this, of gps ref 0] obtain before after where
    run: "\<forall>fuel>k0 div 3. monitor_status fuel flag gps ref 0 0 = Some (before @ after)"
    and before: "ReadTearDown True \<notin> set before"
      "before = [] \<or> last before = ReadTearDown False"
    and after: "after = [ReadTearDown True] \<or>
       (\<exists>c. after = sampling_cycle (gps c) (ref c) @ [ReadTearDown True]) \<or>
       after = [Wait_ms N3XX_MONITOR_THREAD_INTERVAL_ms, ReadTearDown True]"
    by blast
  from after have bounds: "sampling_cycles after \<le> 1"
      "waited_ms after \<le> N3XX_MONITOR_THREAD_INTERVAL_ms"
    by (auto simp: sampling_cycles_def sampling_cycle_def)
  have down: "tear_down is_alive active_overlays s =
      (Inr (), s\<lparr>tear_down_flag := True,
                 hw_log := hw_log s
                   @ (if device_initialized s then
                        Join_ms (3 * N3XX_MONITOR_THREAD_INTERVAL_ms)
                        # (if is_alive then
                             [LogError ''Could not terminate monitor thread! This could result in resource leaks.'']
                           else [])
                      else [])
                   @ map RmOverlay active_overlays\<rparr>)"
    by (simp add: tear_down_def Let_def emit_def emits_def)
  from run before after bounds down show ?thesis by blast
qed


theorem monitor_stops_after_tear_down_witness:
  "monitor_status 2 set_at_fifth_read always always 0 0 =
     Some ([ReadTearDown False, GpioGet ''GPS-LOCKOK'', LedSet ''LED_GPS'' 1, GetRefLockSensor,
            LedSet ''LED_REF'' 1, ReadTearDown False, Wait_ms 1000, ReadTearDown False,
            ReadTearDown False]
           @ [GpioGet ''GPS-LOCKOK'', LedSet ''LED_GPS'' 1, GetRefLockSensor,
              LedSet ''LED_REF'' 1, ReadTearDown True]) \<and>
   (\<exists>before after.
      monitor_status 2 set_at_fifth_read always always 0 0 = Some (before @ after) \<and>
      ReadTearDown True \<notin> set before \<and>
      sampling_cycles after \<le> 1 \<and> waited_ms after \<le> 1000) \<and>
   tear_down True [''n310''] bench =
     (Inr (), bench\<lparr>tear_down_flag := True,
        hw_log := [Join_ms 3000,
          LogError ''Could not terminate monitor thread! This could result in resource leaks.'',
          RmOverlay ''n310'']\<rparr>)"
proof -
  have flag: "\<forall>k. set_at_fifth_read k = (4 \<le> k)"
    by (simp add: set_at_fifth_read_def)
  note stops = monitor_stops_after_tear_down [OF flag, of always always True "[''n310'']" bench]
  have run: "monitor_status 2 set_at_fifth_read always always 0 0 =
     Some ([ReadTearDown False, GpioGet ''GPS-LOCKOK'', LedSet ''LED_GPS'' 1, GetRefLockSensor,
            LedSet ''LED_REF'' 1, ReadTearDown False, Wait_ms 1000, ReadTearDown False,
            ReadTearDown False]
           @ [GpioGet ''GPS-LOCKOK'', LedSet ''LED_GPS'' 1, GetRefLockSensor,
              LedSet ''LED_REF'' 1, ReadTearDown True])"
    by (simp add: numeral_2_eq_2 set_at_fifth_read_def always_def wait_for_def
          sampling_cycle_def N3XX_MONITOR_THREAD_INTERVAL_ms_def)
  from stops [THEN conjunct1] have split: "\<exists>before after.
      monitor_status 2 set_at_fifth_read always always 0 0 = Some (before @ after) \<and>
      ReadTearDown True \<notin> set before \<and>
      sampling_cycles after \<le> 1 \<and> waited_ms after \<le> 1000"
  proof (elim exE conjE)
    fix before after
    assume "\<forall>fuel>4 div 3. monitor_status fuel set_at_fifth_read always always 0 0 =
        Some (before @ after)"
      and "ReadTearDown True \<notin> set before"
      and "sampling_cycles after \<le> 1"
      and "waited_ms after \<le> N3XX_MONITOR_THREAD_INTERVAL_ms"
    then have "monitor_status 2 set_at_fifth_read always always 0 0 = Some (before @ after) \<and>
      ReadTearDown True \<notin> set before \<and>
      sampling_cycles after \<le> 1 \<and> waited_ms after \<le> 1000"
      by (simp add: N3XX_MONITOR_THREAD_INTERVAL_ms_def)
    then show ?thesis by blast
  qed
  from stops [THEN conjunct2] have down: "tear_down True [''n310''] bench =
     (Inr (), bench\<lparr>tear_down_flag := True,
        hw_log := [Join_ms 3000,
          LogError ''Could not terminate monitor thread! This could result in resource leaks.'',
          RmOverlay ''n310'']\<rparr>)"
    by (simp add: bench_def N3XX_MONITOR_THREAD_INTERVAL_ms_def)
  from run split down show ?thesis by (intro conjI)
qed

end
